theory Spec2Isabelle
  imports Complex_Main "HOL-Library.Sublist" "HOL-Library.Char_ord" "HOL-Library.List_Lexorder"
begin

section \<open>Strings, paths and JSON values\<close>

text \<open>
  JavaScript strings are modelled as HOL strings: a list of characters, one per code unit, so
  that \<open>length\<close> is \<open>.length\<close>, \<open>take n\<close> is \<open>.substring(0, n)\<close> and the default
  \<open>Array.prototype.sort\<close> is the lexicographic order on character codes.
\<close>

type_synonym path = string

definition nl :: string where
  "nl = [char_of (10::nat)]"

definition digit_char :: "nat \<Rightarrow> char" where
  "digit_char d = char_of (48 + d)"

text \<open>The decimal rendering of a non-negative integer, as a template literal prints it.\<close>

fun show_nat :: "nat \<Rightarrow> string" where
  "show_nat n = (if n < 10 then [digit_char n] else show_nat (n div 10) @ [digit_char (n mod 10)])"

declare show_nat.simps [simp del]

definition to_lower_char :: "char \<Rightarrow> char" where
  "to_lower_char c =
     (if CHR ''A'' \<le> c \<and> c \<le> CHR ''Z'' then char_of (of_char c + (32::nat)) else c)"

text \<open>
  \<open>toLowerCase\<close> on the ASCII letters; the results are only compared with ASCII literals.
\<close>

definition toLowerCase :: "string \<Rightarrow> string" where
  "toLowerCase s = map to_lower_char s"

definition includes_str :: "string \<Rightarrow> string \<Rightarrow> bool" where
  "includes_str s pat = sublist pat s"

definition endsWith :: "string \<Rightarrow> string \<Rightarrow> bool" where
  "endsWith s suf = suffix suf s"

text \<open>\<open>s.length > n ? s.substring(0, n) + "...(truncated)" : s\<close>\<close>

definition truncated :: "nat \<Rightarrow> string \<Rightarrow> string" where
  "truncated n s = (if length s > n then take n s @ ''...(truncated)'' else s)"

subsection \<open>POSIX \<open>path.join\<close> and \<open>path.basename\<close>\<close>

text \<open>
  \<open>join\<close> and \<open>basename\<close> come from Node's \<open>path\<close> module; the definitions follow its POSIX
  behaviour: the non-empty arguments are concatenated with \<open>/\<close> and the result is normalised
  (empty and \<open>.\<close> segments dropped, \<open>..\<close> resolved against the preceding segment).
\<close>

fun split_path :: "string \<Rightarrow> string list" where
  "split_path [] = [[]]"
| "split_path (c # cs) =
     (if c = CHR ''/'' then [] # split_path cs
      else (case split_path cs of [] \<Rightarrow> [[c]] | w # ws \<Rightarrow> (c # w) # ws))"

fun join_segments :: "string list \<Rightarrow> string" where
  "join_segments [] = []"
| "join_segments [w] = w"
| "join_segments (w # v # ws) = w @ ''/'' @ join_segments (v # ws)"

definition normalize_step :: "bool \<Rightarrow> string list \<Rightarrow> string \<Rightarrow> string list" where
  "normalize_step allowAboveRoot res seg =
     (if seg = [] \<or> seg = ''.'' then res
      else if seg = ''..'' then
        (if res \<noteq> [] \<and> last res \<noteq> ''..'' then butlast res
         else if allowAboveRoot then res @ [''..''] else res)
      else res @ [seg])"

definition normalizeString :: "string \<Rightarrow> bool \<Rightarrow> string" where
  "normalizeString p allowAboveRoot =
     join_segments (foldl (normalize_step allowAboveRoot) [] (split_path p))"

definition normalize :: "string \<Rightarrow> string" where
  "normalize p =
     (if p = [] then ''.''
      else let isAbsolute = (hd p = CHR ''/'');
               trailingSeparator = (last p = CHR ''/'');
               q = normalizeString p (\<not> isAbsolute)
           in if q = [] then (if isAbsolute then ''/'' else if trailingSeparator then ''./'' else ''.'')
              else (if isAbsolute then ''/'' else []) @ q @ (if trailingSeparator then ''/'' else []))"

definition join :: "string list \<Rightarrow> path" where
  "join args =
     (case filter (\<lambda>a. a \<noteq> []) args of
        [] \<Rightarrow> ''.''
      | parts \<Rightarrow> normalize (join_segments parts))"

definition basename :: "path \<Rightarrow> string" where
  "basename p =
     (case filter (\<lambda>w. w \<noteq> []) (split_path p) of [] \<Rightarrow> [] | ws \<Rightarrow> last ws)"

subsection \<open>Numbers\<close>

text \<open>
  A JavaScript number is an IEEE 754 double. A finite double is kept as the rational it
  denotes. The two zeros are not told apart: the program only compares numbers with \<open>>=\<close>
  and writes them with \<open>JSON.stringify\<close>, which treat both alike (and which writes an
  infinite number as \<open>null\<close>); and none of its computations yields \<open>NaN\<close>. A decimal numeral is converted to the nearest double, ties
  to the even significand, as \<open>parseInt\<close> and \<open>parseFloat\<close> of Node's engine do:
  a significand of 53 bits, exponents down to \<open>-1074\<close> (subnormal numbers), and
  infinity from \<open>2 ^ 1024\<close> on.
\<close>

datatype number = Finite rat | Infinity | Minus_infinity

function bit_length :: "int \<Rightarrow> nat" where
  "bit_length n = (if n \<le> 0 then 0 else Suc (bit_length (n div 2)))"
  by pat_completeness auto

termination
  by (relation "measure nat") auto

declare bit_length.simps [simp del]

definition pow2 :: "int \<Rightarrow> rat" where
  "pow2 e = (if e \<ge> 0 then 2 ^ nat e else 1 / 2 ^ nat (- e))"

text \<open>For a positive \<open>q\<close>, the \<open>e\<close> with \<open>2 ^ e \<le> q < 2 ^ (e + 1)\<close>.\<close>

definition binary_exponent :: "rat \<Rightarrow> int" where
  "binary_exponent q =
     (case quotient_of q of (a, b) \<Rightarrow>
        let e = int (bit_length a) - int (bit_length b)
        in if pow2 e \<le> q then e else e - 1)"

definition round_half_even :: "rat \<Rightarrow> int" where
  "round_half_even q =
     (let f = \<lfloor>q\<rfloor>; r = q - of_int f
      in if r < 1 / 2 then f else if r > 1 / 2 then f + 1 else if even f then f else f + 1)"

definition to_double :: "rat \<Rightarrow> number" where
  "to_double q =
     (if q = 0 then Finite 0
      else
        let m = \<bar>q\<bar>;
            e = max (binary_exponent m - 52) (- 1074);
            v = of_int (round_half_even (m / pow2 e)) * pow2 e
        in if v \<ge> pow2 1024 then (if q < 0 then Minus_infinity else Infinity)
           else Finite (if q < 0 then - v else v))"

text \<open>\<open>x >= 0\<close>\<close>

definition nonnegative :: "number \<Rightarrow> bool" where
  "nonnegative x = (case x of Finite q \<Rightarrow> q \<ge> 0 | Infinity \<Rightarrow> True | Minus_infinity \<Rightarrow> False)"

subsection \<open>JSON\<close>

text \<open>
  The value handed to \<open>JSON.stringify\<close>, or received as the arguments of a tool call; an
  object lists its properties in insertion order.
\<close>

datatype json =
    JNull
  | JBool bool
  | JNum number
  | JStr string
  | JArr "json list"
  | JObj "(string \<times> json) list"

fun field :: "json \<Rightarrow> string \<Rightarrow> json option" where
  "field (JObj kvs) k = map_of kvs k"
| "field _ k = None"

section \<open>Errors\<close>

text \<open>A thrown \<open>Error\<close> object, with its \<open>message\<close>.\<close>

datatype js_error = Error (message: string)

text \<open>
  \<open>error.message || String(error)\<close>: an empty message is falsy, and \<open>String\<close> of an
  \<open>Error\<close> without message is its name.
\<close>

definition error_text :: "js_error \<Rightarrow> string" where
  "error_text e = (if message e = [] then ''Error'' else message e)"

datatype ErrorCode = InvalidParams | MethodNotFound | InternalError

datatype mcp_error = McpError ErrorCode string

section \<open>The world outside the server\<close>

text \<open>
  Every call that leaves the process (file system, child processes, the random number
  generator, the console) is recorded in a history, and its outcome is given by the
  environment, which answers a request knowing the history so far.
\<close>

record exec_options =
  cwd :: "path option"
  timeout :: "nat option"
  maxBuffer :: "nat option"
  env_PATH_suffix :: "string option"
  shell :: bool

definition no_options :: exec_options where
  "no_options = \<lparr>cwd = None, timeout = None, maxBuffer = None, env_PATH_suffix = None, shell = False\<rparr>"

datatype content = Text string | Json_text json

datatype action =
    Mkdir path
  | WriteFile path content
  | ReadFile path
  | Access path
  | Readdir path
  | Exec string exec_options
  | Spawn string "string list" exec_options
  | SetTimeout nat
  | ClearTimeout
  | Kill string
  | Random_token string
  | Console_error string

text \<open>
  How a child process started by \<open>exec\<close> ends: with an exit code or a signal (stdout and
  stderr captured), or with an error that \<open>exec\<close> raises itself (the shell could not be
  spawned, an output buffer overflowed).
\<close>

datatype process_end =
    Exited nat string string
  | Signalled string string string
  | Exec_error js_error string string

datatype exec_event = Timer_fires | Process_ends process_end

record environment =
  mkdir_result :: "action list \<Rightarrow> path \<Rightarrow> js_error option"
  writeFile_result :: "action list \<Rightarrow> path \<Rightarrow> content \<Rightarrow> js_error option"
  readFile_result :: "action list \<Rightarrow> path \<Rightarrow> js_error + string"
  access_result :: "action list \<Rightarrow> path \<Rightarrow> js_error option"
  readdir_result :: "action list \<Rightarrow> path \<Rightarrow> js_error + string list"
  exec_result :: "action list \<Rightarrow> string \<Rightarrow> exec_options \<Rightarrow> process_end"
  timed_exec_result :: "action list \<Rightarrow> string \<Rightarrow> exec_options \<Rightarrow> nat \<Rightarrow> exec_event \<times> exec_event list"
  random_result :: "action list \<Rightarrow> string"

section \<open>Server state and effects\<close>

record project =
  dir :: path
  type :: string

record state =
  tempDir :: path
  openlaneDir :: path
  projects :: "string \<rightharpoonup> project"
  os :: environment
  history :: "action list"

type_synonym 'a io = "state \<Rightarrow> (js_error + 'a) \<times> state"

definition ret :: "'a \<Rightarrow> 'a io" where
  "ret a s = (Inr a, s)"

definition throw :: "js_error \<Rightarrow> 'a io" where
  "throw e s = (Inl e, s)"

definition await :: "'a io \<Rightarrow> ('a \<Rightarrow> 'b io) \<Rightarrow> 'b io" where
  "await m f s = (case m s of (Inl e, s') \<Rightarrow> (Inl e, s') | (Inr a, s') \<Rightarrow> f a s')"

definition try_catch :: "'a io \<Rightarrow> (js_error \<Rightarrow> 'a io) \<Rightarrow> 'a io" where
  "try_catch m h s = (case m s of (Inl e, s') \<Rightarrow> h e s' | (Inr a, s') \<Rightarrow> (Inr a, s'))"

definition reads :: "(state \<Rightarrow> 'a) \<Rightarrow> 'a io" where
  "reads f s = (Inr (f s), s)"

definition record_action :: "action \<Rightarrow> state \<Rightarrow> state" where
  "record_action a s = s\<lparr>history := history s @ [a]\<rparr>"

definition projects_set :: "string \<Rightarrow> project \<Rightarrow> unit io" where
  "projects_set k p s = (Inr (), s\<lparr>projects := (projects s)(k \<mapsto> p)\<rparr>)"

definition projects_get :: "string \<Rightarrow> project option io" where
  "projects_get k = reads (\<lambda>s. projects s k)"

definition of_option :: "js_error option \<Rightarrow> js_error + unit" where
  "of_option r = (case r of None \<Rightarrow> Inr () | Some e \<Rightarrow> Inl e)"

definition fs_mkdir :: "path \<Rightarrow> unit io" where
  "fs_mkdir p s = (of_option (mkdir_result (os s) (history s) p), record_action (Mkdir p) s)"

definition fs_writeFile :: "path \<Rightarrow> content \<Rightarrow> unit io" where
  "fs_writeFile p c s =
     (of_option (writeFile_result (os s) (history s) p c), record_action (WriteFile p c) s)"

definition fs_readFile :: "path \<Rightarrow> string io" where
  "fs_readFile p s = (readFile_result (os s) (history s) p, record_action (ReadFile p) s)"

definition fs_access :: "path \<Rightarrow> unit io" where
  "fs_access p s = (of_option (access_result (os s) (history s) p), record_action (Access p) s)"

definition fs_readdir :: "path \<Rightarrow> string list io" where
  "fs_readdir p s = (readdir_result (os s) (history s) p, record_action (Readdir p) s)"

definition console_error :: "string \<Rightarrow> unit io" where
  "console_error msg s = (Inr (), record_action (Console_error msg) s)"

text \<open>
  \<open>Math.random().toString(36).substring(2, 15)\<close>: the environment supplies the resulting
  token, at most 13 base-36 digits.
\<close>

definition random_token :: "string io" where
  "random_token s =
     (let t = random_result (os s) (history s) in (Inr t, record_action (Random_token t) s))"

definition is_base36 :: "char \<Rightarrow> bool" where
  "is_base36 c = ((CHR ''0'' \<le> c \<and> c \<le> CHR ''9'') \<or> (CHR ''a'' \<le> c \<and> c \<le> CHR ''z''))"

definition is_token :: "string \<Rightarrow> bool" where
  "is_token t = (length t \<le> 13 \<and> list_all is_base36 t)"

section \<open>Process Runner\<close>

text \<open>
  Node's \<open>exec\<close> calls back with \<open>(error, stdout, stderr)\<close>: no error when the process
  exits with code 0, otherwise an error whose message is
  \<open>Command failed: <command>\n<stderr>\<close>, or the error \<open>exec\<close> raised itself.
\<close>

definition command_failed :: "string \<Rightarrow> string \<Rightarrow> js_error" where
  "command_failed command stderr = Error (''Command failed: '' @ command @ nl @ stderr)"

fun exec_callback :: "string \<Rightarrow> process_end \<Rightarrow> js_error option \<times> string \<times> string" where
  "exec_callback command (Exited code out err) =
     (if code = 0 then None else Some (command_failed command err), out, err)"
| "exec_callback command (Signalled sig out err) = (Some (command_failed command err), out, err)"
| "exec_callback command (Exec_error e out err) = (Some e, out, err)"

text \<open>\<open>execAsync = promisify(exec)\<close>\<close>

definition promisified :: "js_error option \<times> string \<times> string \<Rightarrow> js_error + string \<times> string" where
  "promisified cb = (case cb of (Some e, out, err) \<Rightarrow> Inl e | (None, out, err) \<Rightarrow> Inr (out, err))"

definition execAsync :: "string \<Rightarrow> exec_options \<Rightarrow> (string \<times> string) io" where
  "execAsync command options s =
     (promisified (exec_callback command (exec_result (os s) (history s) command options)),
      record_action (Exec command options) s)"

subsection \<open>\<open>execAsyncWithTimeout\<close>\<close>

text \<open>
  The promise body arms a timer and starts the process; afterwards the timer callback and
  the \<open>exec\<close> callback run in the order the events arrive. A promise keeps the first value
  it is settled with. A timer fires only while armed.
\<close>

datatype timer = Armed | Fired | Cleared

datatype 'a promise = Pending | Resolved 'a | Rejected js_error

record runner =
  timer_state :: timer
  promise :: "(string \<times> string) promise"
  effects :: "action list"

definition resolve :: "string \<times> string \<Rightarrow> 'z runner_scheme \<Rightarrow> 'z runner_scheme" where
  "resolve v r = (if promise r = Pending then r\<lparr>promise := Resolved v\<rparr> else r)"

definition reject :: "js_error \<Rightarrow> 'z runner_scheme \<Rightarrow> 'z runner_scheme" where
  "reject e r = (if promise r = Pending then r\<lparr>promise := Rejected e\<rparr> else r)"

definition clearTimeout :: "'z runner_scheme \<Rightarrow> 'z runner_scheme" where
  "clearTimeout r =
     r\<lparr>timer_state := (if timer_state r = Armed then Cleared else timer_state r),
       effects := effects r @ [ClearTimeout]\<rparr>"

definition kill :: "string \<Rightarrow> 'z runner_scheme \<Rightarrow> 'z runner_scheme" where
  "kill sig r = r\<lparr>effects := effects r @ [Kill sig]\<rparr>"

definition execOptions :: "exec_options \<Rightarrow> exec_options" where
  "execOptions options =
     options\<lparr>maxBuffer := (case maxBuffer options of None \<Rightarrow> Some (10 * 1024 * 1024) | Some b \<Rightarrow> Some b)\<rparr>"

definition exec_timed_out :: "nat \<Rightarrow> string \<Rightarrow> js_error" where
  "exec_timed_out timeoutMs command =
     Error (''Command timed out after '' @ show_nat timeoutMs @ ''ms: '' @ command)"

fun exec_step :: "string \<Rightarrow> nat \<Rightarrow> runner \<Rightarrow> exec_event \<Rightarrow> runner" where
  "exec_step command timeoutMs r Timer_fires =
     (if timer_state r = Armed
      then reject (exec_timed_out timeoutMs command) (kill ''SIGKILL'' (r\<lparr>timer_state := Fired\<rparr>))
      else r)"
| "exec_step command timeoutMs r (Process_ends pe) =
     (let r1 = clearTimeout r in
      case exec_callback command pe of
        (Some error, stdout, stderr) \<Rightarrow> reject error r1
      | (None, stdout, stderr) \<Rightarrow> resolve (stdout, stderr) r1)"

definition execAsyncWithTimeout_run ::
  "string \<Rightarrow> exec_options \<Rightarrow> nat \<Rightarrow> exec_event list \<Rightarrow> runner" where
  "execAsyncWithTimeout_run command options timeoutMs events =
     foldl (exec_step command timeoutMs)
       \<lparr>timer_state = Armed, promise = Pending,
        effects = [SetTimeout timeoutMs, Exec command (execOptions options)]\<rparr>
       events"

text \<open>
  Awaiting the promise inside a driver. The environment supplies the first event and the
  later ones; the first event settles the promise (lemma \<open>execAsyncWithTimeout_settled\<close>),
  so the \<open>Pending\<close> case does not arise.
\<close>

definition execAsyncWithTimeout :: "string \<Rightarrow> exec_options \<Rightarrow> nat \<Rightarrow> (string \<times> string) io" where
  "execAsyncWithTimeout command options timeoutMs s =
     (let (e, es) = timed_exec_result (os s) (history s) command (execOptions options) timeoutMs;
          r = execAsyncWithTimeout_run command options timeoutMs (e # es)
      in ((case promise r of
             Resolved v \<Rightarrow> Inr v
           | Rejected error \<Rightarrow> Inl error
           | Pending \<Rightarrow> Inl (Error ''pending'')),
          s\<lparr>history := history s @ effects r\<rparr>))"

subsection \<open>\<open>spawnAsyncWithTimeout\<close>\<close>

datatype spawn_event =
    Spawn_timer_fires
  | Stdout_data string
  | Stderr_data string
  | Close "nat option"
  | Spawn_error js_error

record spawn_runner = runner +
  stdout_buf :: string
  stderr_buf :: string

fun args_join :: "string list \<Rightarrow> string" where
  "args_join [] = []"
| "args_join [a] = a"
| "args_join (a # b # bs) = a @ '' '' @ args_join (b # bs)"

definition show_code :: "nat option \<Rightarrow> string" where
  "show_code code = (case code of None \<Rightarrow> ''null'' | Some c \<Rightarrow> show_nat c)"

definition spawn_timed_out :: "nat \<Rightarrow> string \<Rightarrow> string list \<Rightarrow> js_error" where
  "spawn_timed_out timeoutMs command args =
     Error (''Command timed out after '' @ show_nat timeoutMs @ ''ms: '' @ command @ '' '' @ args_join args)"

definition spawn_failed :: "nat option \<Rightarrow> string \<Rightarrow> string list \<Rightarrow> string \<Rightarrow> js_error" where
  "spawn_failed code command args stderr =
     Error (''Command failed with exit code '' @ show_code code @ '': '' @ command @ '' ''
            @ args_join args @ nl @ stderr)"

fun spawn_step :: "string \<Rightarrow> string list \<Rightarrow> nat \<Rightarrow> spawn_runner \<Rightarrow> spawn_event \<Rightarrow> spawn_runner" where
  "spawn_step command args timeoutMs r Spawn_timer_fires =
     (if timer_state r = Armed
      then reject (spawn_timed_out timeoutMs command args) (kill ''SIGKILL'' (r\<lparr>timer_state := Fired\<rparr>))
      else r)"
| "spawn_step command args timeoutMs r (Stdout_data d) = r\<lparr>stdout_buf := stdout_buf r @ d\<rparr>"
| "spawn_step command args timeoutMs r (Stderr_data d) = r\<lparr>stderr_buf := stderr_buf r @ d\<rparr>"
| "spawn_step command args timeoutMs r (Close code) =
     (let r1 = clearTimeout r in
      if code = Some 0 then resolve (stdout_buf r1, stderr_buf r1) r1
      else reject (spawn_failed code command args (stderr_buf r1)) r1)"
| "spawn_step command args timeoutMs r (Spawn_error error) = reject error (clearTimeout r)"

definition spawnAsyncWithTimeout ::
  "string \<Rightarrow> string list \<Rightarrow> exec_options \<Rightarrow> nat \<Rightarrow> spawn_event list \<Rightarrow> spawn_runner" where
  "spawnAsyncWithTimeout command args options timeoutMs events =
     foldl (spawn_step command args timeoutMs)
       \<lparr>timer_state = Armed, promise = Pending,
        effects = [SetTimeout timeoutMs, Spawn command args options],
        stdout_buf = [], stderr_buf = []\<rparr>
       events"

text \<open>\<open>commandExists\<close>: does \<open>which <command>\<close> succeed.\<close>

definition commandExists :: "string \<Rightarrow> bool io" where
  "commandExists command =
     try_catch (await (execAsync (''which '' @ command) no_options) (\<lambda>_. ret True)) (\<lambda>_. ret False)"

section \<open>Flow Drivers\<close>

definition dq :: string where
  "dq = [char_of (34::nat)]"

definition failure :: "string \<Rightarrow> json" where
  "failure msg = JObj [(''success'', JBool False), (''error'', JStr msg)]"

definition latest :: "string list \<Rightarrow> string" where
  "latest runs = hd (rev (sort runs))"

subsection \<open>Synthesis\<close>

definition synth_script :: "string \<Rightarrow> string \<Rightarrow> string" where
  "synth_script target topModule =
     (if toLowerCase target = ''ice40'' then
        nl @ ''read_verilog design.v'' @ nl @ ''hierarchy -check -top '' @ topModule @ nl
        @ ''synth_ice40 -top '' @ topModule @ nl @ ''write_verilog synth_output.v'' @ nl
        @ ''stat'' @ nl
      else if toLowerCase target = ''xilinx'' then
        nl @ ''read_verilog design.v'' @ nl @ ''hierarchy -check -top '' @ topModule @ nl
        @ ''synth_xilinx -top '' @ topModule @ nl @ ''write_verilog synth_output.v'' @ nl
        @ ''stat'' @ nl
      else
        nl @ ''read_verilog design.v'' @ nl @ ''hierarchy -check -top '' @ topModule @ nl
        @ ''synth -top '' @ topModule @ nl @ ''techmap'' @ nl @ ''opt'' @ nl
        @ ''write_verilog synth_output.v'' @ nl @ ''stat'' @ nl)"

definition synthesizeVerilog :: "string \<Rightarrow> string \<Rightarrow> string \<Rightarrow> json io" where
  "synthesizeVerilog verilogCode topModule target =
     try_catch
       (await random_token (\<lambda>projectId.
        await (reads tempDir) (\<lambda>tmp.
        let projectDir = join [tmp, ''project_'' @ projectId] in
        await (fs_mkdir projectDir) (\<lambda>_.
        await (projects_set projectId \<lparr>dir = projectDir, type = ''synthesis''\<rparr>) (\<lambda>_.
        let verilogFile = join [projectDir, ''design.v''] in
        await (fs_writeFile verilogFile (Text verilogCode)) (\<lambda>_.
        let synthScript = synth_script target topModule;
            scriptFile = join [projectDir, ''synth.ys''] in
        await (fs_writeFile scriptFile (Text synthScript)) (\<lambda>_.
        await (execAsync (''yosys -s '' @ scriptFile)
                 (no_options\<lparr>cwd := Some projectDir, timeout := Some 120000\<rparr>)) (\<lambda>(stdout, stderr).
        await (try_catch (fs_readFile (join [projectDir, ''synth_output.v'']))
                 (\<lambda>_. ret ''Synthesis output not generated'')) (\<lambda>synthVerilog.
        ret (JObj [(''project_id'', JStr projectId),
                   (''success'', JBool True),
                   (''stdout'', JStr stdout),
                   (''stderr'', JStr stderr),
                   (''synthesized_verilog'', JStr synthVerilog),
                   (''target'', JStr target)]))))))))))
       (\<lambda>error. ret (failure (error_text error)))"

subsection \<open>Simulation\<close>

definition compileCmd :: string where
  "compileCmd = ''iverilog -o simulation design.v testbench.v''"

definition simulateVerilog :: "string \<Rightarrow> string \<Rightarrow> json io" where
  "simulateVerilog verilogCode testbenchCode =
     try_catch
       (await random_token (\<lambda>projectId.
        await (reads tempDir) (\<lambda>tmp.
        let projectDir = join [tmp, ''sim_project_'' @ projectId] in
        await (fs_mkdir projectDir) (\<lambda>_.
        await (projects_set projectId \<lparr>dir = projectDir, type = ''simulation''\<rparr>) (\<lambda>_.
        await (fs_writeFile (join [projectDir, ''design.v'']) (Text verilogCode)) (\<lambda>_.
        await (fs_writeFile (join [projectDir, ''testbench.v'']) (Text testbenchCode)) (\<lambda>_.
        await (execAsync compileCmd
                 (no_options\<lparr>cwd := Some projectDir, timeout := Some 60000\<rparr>)) (\<lambda>(compileOut, compileErr).
        await (execAsync ''./simulation''
                 (no_options\<lparr>cwd := Some projectDir, timeout := Some 60000\<rparr>)) (\<lambda>(simOut, simErr).
        ret (JObj [(''project_id'', JStr projectId),
                   (''success'', JBool True),
                   (''compile_stdout'', JStr compileOut),
                   (''compile_stderr'', JStr compileErr),
                   (''sim_stdout'', JStr simOut),
                   (''sim_stderr'', JStr simErr),
                   (''note'', JStr (''Use view_waveform with project_id: '' @ projectId
                                    @ '' to open GTKWave''))]))))))))))
       (\<lambda>error. ret (failure (error_text error)))"

subsection \<open>Waveform viewer\<close>

definition viewWaveform :: "string \<Rightarrow> string \<Rightarrow> json io" where
  "viewWaveform projectId vcdFile =
     try_catch
       (await (projects_get projectId) (\<lambda>project.
        case project of
          None \<Rightarrow>
            ret (failure (''Project '' @ projectId @ '' not found. Run a simulation first.''))
        | Some project \<Rightarrow>
            let vcdPath = join [dir project, vcdFile] in
            await (try_catch (await (fs_access vcdPath) (\<lambda>_. ret None))
                     (\<lambda>_. await (fs_readdir (dir project)) (\<lambda>files.
                           let vcdFiles = filter (\<lambda>f. endsWith f ''.vcd'') files in
                           ret (Some (JObj
                             [(''success'', JBool False),
                              (''error'', JStr (''VCD file '' @ [CHR 0x27] @ vcdFile @ [CHR 0x27]
                                               @ '' not found in project '' @ projectId)),
                              (''available_vcd_files'', JArr (map JStr vcdFiles)),
                              (''note'', JStr ''Make sure your testbench includes $dumpfile() and $dumpvars() commands'')])))))
              (\<lambda>returned.
               case returned of
                 Some envelope \<Rightarrow> ret envelope
               | None \<Rightarrow>
                   await (commandExists ''gtkwave'') (\<lambda>found.
                   if \<not> found then
                     ret (JObj
                       [(''success'', JBool False),
                        (''error'', JStr ''GTKWave not found. Please install GTKWave to view waveforms.''),
                        (''install_instructions'', JObj
                           [(''macos'', JStr ''brew install gtkwave''),
                            (''linux'', JStr ''sudo apt-get install gtkwave''),
                            (''windows'', JStr ''Install GTKWave from http://gtkwave.sourceforge.net/'')])])
                   else
                     let gtkwaveCmd = ''gtkwave '' @ dq @ vcdPath @ dq @ '' &'' in
                     await (execAsync gtkwaveCmd
                              (no_options\<lparr>cwd := Some (dir project), timeout := Some 5000\<rparr>)) (\<lambda>_.
                     ret (JObj
                       [(''success'', JBool True),
                        (''message'', JStr (''GTKWave launched for project '' @ projectId)),
                        (''vcd_file'', JStr vcdFile),
                        (''vcd_path'', JStr vcdPath),
                        (''project_type'', JStr (type project))]))))))
       (\<lambda>error. ret (failure (error_text error)))"

subsection \<open>Physical-design flow\<close>

fun find_python :: "string list \<Rightarrow> string \<Rightarrow> string io" where
  "find_python [] pythonCmd = ret pythonCmd"
| "find_python (candidate # candidates) pythonCmd =
     await (commandExists candidate) (\<lambda>found.
       if found then ret candidate else find_python candidates pythonCmd)"

definition configContent :: "string \<Rightarrow> string \<Rightarrow> number \<Rightarrow> json" where
  "configContent designName clockPort clockPeriod =
     JObj [(''DESIGN_NAME'', JStr designName),
           (''VERILOG_FILES'', JArr [JStr (designName @ ''.v'')]),
           (''CLOCK_PORT'', JStr clockPort),
           (''CLOCK_PERIOD'', JNum clockPeriod),
           (''FP_SIZING'', JStr ''absolute''),
           (''DIE_AREA'', JStr ''0 0 100 100''),
           (''FP_PDN_MULTILAYER'', JBool False),
           (''QUIT_ON_TIMING_VIOLATIONS'', JBool False),
           (''QUIT_ON_MAGIC_DRC'', JBool False),
           (''QUIT_ON_LVS_ERROR'', JBool False),
           (''RUN_KLAYOUT_XOR'', JBool False),
           (''RUN_KLAYOUT_DRC'', JBool False)]"

definition wrapperScript :: "path \<Rightarrow> string \<Rightarrow> string" where
  "wrapperScript projectDir pythonCmd =
     ''#!/bin/bash'' @ nl @ ''set -e'' @ nl @ nl
     @ ''# Disable TTY requirements'' @ nl
     @ ''export DEBIAN_FRONTEND=noninteractive'' @ nl
     @ ''export CI=true'' @ nl
     @ ''export TERM=dumb'' @ nl @ nl
     @ ''# Change to project directory'' @ nl
     @ ''cd '' @ dq @ projectDir @ dq @ nl @ nl
     @ ''# Run OpenLane with script command to simulate TTY'' @ nl
     @ ''script -q /dev/null '' @ pythonCmd @ '' -m openlane --dockerized config.json'' @ nl"

text \<open>
  Two blocks of \<open>runOpenlane\<close>: finding the latest run directory and the GDS file below it
  (both empty when not found), and the optional launch of the layout viewer.
\<close>

definition find_gds :: "path \<Rightarrow> (string \<times> path) io" where
  "find_gds runsDir =
     try_catch
       (await (fs_readdir runsDir) (\<lambda>runs.
        if length runs > 0 then
          let latestRun = latest runs;
              finalDir = join [runsDir, latestRun, ''final'', ''gds''] in
          await (try_catch
                   (await (fs_readdir finalDir) (\<lambda>gdsFiles.
                    let gdsFilesList = filter (\<lambda>f. endsWith f ''.gds'') gdsFiles in
                    ret (if length gdsFilesList > 0 then join [finalDir, hd gdsFilesList] else [])))
                   (\<lambda>_. ret []))
            (\<lambda>gdsFile. ret (latestRun, gdsFile))
        else ret ([], [])))
       (\<lambda>_. ret ([], []))"

definition launch_klayout :: "bool \<Rightarrow> path \<Rightarrow> string io" where
  "launch_klayout openInKlayout gdsFile =
     (if openInKlayout \<and> gdsFile \<noteq> [] then
        try_catch
          (await (commandExists ''klayout'') (\<lambda>found.
           if found then
             let klayoutCmd = ''open -a KLayout '' @ dq @ gdsFile @ dq @ '' &'' in
             await (execAsyncWithTimeout klayoutCmd no_options 10000) (\<lambda>_.
             ret (''KLayout launched with GDS file: '' @ basename gdsFile))
           else ret ''KLayout not found. Install KLayout to view GDS files.''))
          (\<lambda>error. ret (''KLayout launch failed: '' @ message error))
      else ret [])"

text \<open>
  \<open>runOpenlane\<close> is given in two parts: \<open>openlane_flow\<close> is its \<open>try\<close> block from the
  creation of the project directory on, \<open>runOpenlane\<close> itself draws the identifier, stores
  the project and handles the errors.
\<close>

definition openlane_flow ::
  "string \<Rightarrow> string \<Rightarrow> string \<Rightarrow> number \<Rightarrow> bool \<Rightarrow> string \<Rightarrow> path \<Rightarrow> json io" where
  "openlane_flow verilogCode designName clockPort clockPeriod openInKlayout projectId projectDir =
        await (fs_mkdir projectDir) (\<lambda>_.
        let verilogFile = join [projectDir, designName @ ''.v''] in
        await (fs_writeFile verilogFile (Text verilogCode)) (\<lambda>_.
        let configFile = join [projectDir, ''config.json''] in
        await (fs_writeFile configFile (Json_text (configContent designName clockPort clockPeriod))) (\<lambda>_.
        await (find_python [''python3'', ''python''] ''python3'') (\<lambda>pythonCmd.
        await (console_error (''Starting OpenLane flow for '' @ designName @ ''...'')) (\<lambda>_.
        await (console_error (''Working directory: '' @ projectDir)) (\<lambda>_.
        await (console_error ''This may take up to 10 minutes...'') (\<lambda>_.
        let openlaneCmd = pythonCmd @ '' -m openlane --dockerized config.json'' in
        await (console_error (''Executing: '' @ openlaneCmd)) (\<lambda>_.
        let wrapperPath = join [projectDir, ''run_openlane.sh''] in
        await (fs_writeFile wrapperPath (Text (wrapperScript projectDir pythonCmd))) (\<lambda>_.
        await (execAsyncWithTimeout (''chmod +x '' @ dq @ wrapperPath @ dq) no_options 600000) (\<lambda>_.
        await (console_error (''Starting OpenLane flow for '' @ designName @ ''...'')) (\<lambda>_.
        await (console_error (''Working directory: '' @ projectDir)) (\<lambda>_.
        await (console_error ''This may take up to 10 minutes...'') (\<lambda>_.
        await (console_error ''Using wrapper script to handle TTY'') (\<lambda>_.
        await (execAsyncWithTimeout (dq @ wrapperPath @ dq)
                 \<lparr>cwd = Some projectDir, timeout = Some 600000,
                  maxBuffer = Some (10 * 1024 * 1024),
                  env_PATH_suffix = Some '':/usr/local/bin:/opt/homebrew/bin'',
                  shell = False\<rparr>
                 600000) (\<lambda>(stdout, stderr).
        let runsDir = join [projectDir, ''runs''] in
        await (find_gds runsDir) (\<lambda>(latestRun, gdsFile).
        await (launch_klayout openInKlayout gdsFile) (\<lambda>klayoutResult.
        ret (JObj [(''project_id'', JStr projectId),
                   (''success'', JBool True),
                   (''design_name'', JStr designName),
                   (''project_dir'', JStr projectDir),
                   (''latest_run'', JStr latestRun),
                   (''gds_file'', JStr (if gdsFile \<noteq> [] then basename gdsFile else ''Not generated'')),
                   (''gds_path'', JStr gdsFile),
                   (''klayout_status'', JStr klayoutResult),
                   (''command_used'', JStr openlaneCmd),
                   (''stdout'', JStr (truncated 2000 stdout)),
                   (''stderr'', JStr (truncated 2000 stderr)),
                   (''note'', JStr ''OpenLane flow completed. Check the runs directory for detailed results.'')])
        )))))))))))))))))"

definition runOpenlane :: "string \<Rightarrow> string \<Rightarrow> string \<Rightarrow> number \<Rightarrow> bool \<Rightarrow> json io" where
  "runOpenlane verilogCode designName clockPort clockPeriod openInKlayout =
     try_catch
       (await random_token (\<lambda>projectId.
        await (reads openlaneDir) (\<lambda>olDir.
        let projectName = designName @ ''_'' @ projectId;
            projectDir = join [olDir, projectName] in
        await (projects_set projectId \<lparr>dir = projectDir, type = ''openlane''\<rparr>) (\<lambda>_.
        openlane_flow verilogCode designName clockPort clockPeriod openInKlayout projectId projectDir))))
       (\<lambda>error.
        let errorMessage = error_text error in
        await (console_error (''OpenLane error: '' @ errorMessage)) (\<lambda>_.
        ret (JObj [(''success'', JBool False),
                   (''error'', JStr errorMessage),
                   (''note'', JStr ''OpenLane flow failed. Make sure Docker is running and try: docker pull efabless/openlane:latest'')])))"

subsection \<open>Layout viewer\<close>

text \<open>
  The optional \<open>gdsFile\<close> is a string, empty when the caller gave none: the handler passes
  \<open>gdsFile || undefined\<close> and the driver tests \<open>if (gdsFile)\<close>.
\<close>

definition viewGds :: "string \<Rightarrow> string \<Rightarrow> json io" where
  "viewGds projectId gdsFile =
     try_catch
       (await (projects_get projectId) (\<lambda>project.
        case project of
          None \<Rightarrow> ret (failure (''Project '' @ projectId @ '' not found.''))
        | Some project \<Rightarrow>
            await
              (if gdsFile \<noteq> [] then
                 ret (Inr (join [dir project, gdsFile]))
               else
                 let runsDir = join [dir project, ''runs''] in
                 try_catch
                   (await (fs_readdir runsDir) (\<lambda>runs.
                    if length runs > 0 then
                      let latestRun = latest runs;
                          finalDir = join [runsDir, latestRun, ''final'', ''gds''] in
                      await (fs_readdir finalDir) (\<lambda>gdsFiles.
                      let gdsFilesList = filter (\<lambda>f. endsWith f ''.gds'') gdsFiles in
                      ret (Inr (if length gdsFilesList > 0 then join [finalDir, hd gdsFilesList] else [])))
                    else ret (Inr [])))
                   (\<lambda>_. ret (Inl (failure ''No GDS files found in project. Run OpenLane flow first.''))))
              (\<lambda>found.
               case found of
                 Inl envelope \<Rightarrow> ret envelope
               | Inr gdsPath \<Rightarrow>
                   if gdsPath = [] then ret (failure ''No GDS file found to open.'')
                   else
                     await (try_catch (await (fs_access gdsPath) (\<lambda>_. ret True)) (\<lambda>_. ret False))
                       (\<lambda>accessible.
                        if \<not> accessible then ret (failure (''GDS file not found: '' @ gdsPath))
                        else
                          let klayoutCmd = ''open -a KLayout '' @ dq @ gdsPath @ dq in
                          await (execAsyncWithTimeout klayoutCmd (no_options\<lparr>shell := True\<rparr>) 10000) (\<lambda>_.
                          ret (JObj [(''success'', JBool True),
                                     (''message'', JStr ''KLayout launched with GDS file''),
                                     (''gds_file'', JStr (basename gdsPath)),
                                     (''gds_path'', JStr gdsPath),
                                     (''project_id'', JStr projectId),
                                     (''command_executed'', JStr klayoutCmd)]))))))
       (\<lambda>error. ret (failure (error_text error)))"

subsection \<open>Report Extractor\<close>

definition is_digit :: "char \<Rightarrow> bool" where
  "is_digit c = (CHR ''0'' \<le> c \<and> c \<le> CHR ''9'')"

definition is_space :: "char \<Rightarrow> bool" where
  "is_space c = (c = CHR '' '' \<or> (9 \<le> (of_char c :: nat) \<and> (of_char c :: nat) \<le> 13)
                 \<or> (of_char c :: nat) = 160)"

definition is_line_terminator :: "char \<Rightarrow> bool" where
  "is_line_terminator c = ((of_char c :: nat) = 10 \<or> (of_char c :: nat) = 13)"

text \<open>The value of a string of decimal digits, and \<open>parseInt\<close> on such a string.\<close>

definition digits_value :: "string \<Rightarrow> int" where
  "digits_value ds = foldl (\<lambda>a c. 10 * a + (of_char c - 48)) 0 ds"

definition parseInt :: "string \<Rightarrow> number" where
  "parseInt ds = to_double (of_int (digits_value ds))"

text \<open>\<open>/Number of cells:\s*(\d+)/\<close>: the captured digits of the leftmost match.\<close>

definition cells_here :: "string \<Rightarrow> string option" where
  "cells_here s =
     (if prefix ''Number of cells:'' s then
        (let ds = takeWhile is_digit (dropWhile is_space (drop 16 s))
         in if ds = [] then None else Some ds)
      else None)"

fun match_cells :: "string \<Rightarrow> string option" where
  "match_cells [] = None"
| "match_cells (c # cs) =
     (case cells_here (c # cs) of Some ds \<Rightarrow> Some ds | None \<Rightarrow> match_cells cs)"

text \<open>\<open>/WNS.*?(-?\d+\.?\d*)/i\<close>: the captured number of the leftmost match.\<close>

definition number_here :: "string \<Rightarrow> string option" where
  "number_here s =
     (let signed = (case s of c # d # _ \<Rightarrow> c = CHR ''-'' \<and> is_digit d | _ \<Rightarrow> False);
          u = (if signed then tl s else s);
          ip = takeWhile is_digit u;
          rest = drop (length ip) u
      in if ip = [] then None
         else Some ((if signed then ''-'' else []) @ ip
                    @ (case rest of c # fs \<Rightarrow> if c = CHR ''.'' then ''.'' @ takeWhile is_digit fs else []
                                  | [] \<Rightarrow> [])))"

fun lazy_number :: "string \<Rightarrow> string option" where
  "lazy_number [] = None"
| "lazy_number (c # cs) =
     (case number_here (c # cs) of
        Some n \<Rightarrow> Some n
      | None \<Rightarrow> if is_line_terminator c then None else lazy_number cs)"

fun match_wns :: "string \<Rightarrow> string option" where
  "match_wns [] = None"
| "match_wns (c # cs) =
     (if toLowerCase (take 3 (c # cs)) = ''wns'' then
        (case lazy_number (drop 3 (c # cs)) of Some n \<Rightarrow> Some n | None \<Rightarrow> match_wns cs)
      else match_wns cs)"

text \<open>
  \<open>parseFloat\<close> on a captured number (an optional sign, digits, and optionally a point
  and digits): the double nearest to its decimal value.
\<close>

definition parseFloat :: "string \<Rightarrow> number" where
  "parseFloat w =
     (let negative = (w \<noteq> [] \<and> hd w = CHR ''-'');
          u = (if negative then tl w else w);
          ip = takeWhile is_digit u;
          fp = takeWhile is_digit (drop (length ip + 1) u);
          v = of_int (digits_value ip) + of_int (digits_value fp) / 10 ^ length fp
      in to_double (if negative then - v else v))"

subsection \<open>Report reader\<close>

text \<open>The local helper \<open>readFile\<close>: the file's text, or \<open>null\<close>.\<close>

definition readFile :: "path \<Rightarrow> string option io" where
  "readFile p = try_catch (await (fs_readFile p) (\<lambda>text. ret (Some text))) (\<lambda>_. ret None)"

text \<open>\<open>if (report)\<close>: neither \<open>null\<close> nor empty; and the text of such a report.\<close>

definition truthy :: "string option \<Rightarrow> bool" where
  "truthy r = (case r of None \<Rightarrow> False | Some text \<Rightarrow> text \<noteq> [])"

definition report_text :: "string option \<Rightarrow> string" where
  "report_text r = (case r of None \<Rightarrow> [] | Some text \<Rightarrow> text)"

text \<open>The loop over the routing reports: the first readable \<open>sta\<close> or \<open>timing\<close> report.\<close>

fun scan_timing :: "path \<Rightarrow> string list \<Rightarrow> string option io" where
  "scan_timing routingDir [] = ret None"
| "scan_timing routingDir (file # files) =
     (if includes_str file ''sta'' \<or> includes_str file ''timing'' then
        await (readFile (join [routingDir, file])) (\<lambda>timingReport.
          if truthy timingReport then ret timingReport else scan_timing routingDir files)
      else scan_timing routingDir files)"

definition report_results ::
  "string \<Rightarrow> string \<Rightarrow> string option \<Rightarrow> string option \<Rightarrow> string option \<Rightarrow> json" where
  "report_results projectId latestRun synthReport timingReport finalSummary =
     (let cellMatch = (if truthy synthReport then match_cells (report_text synthReport) else None);
          wnsMatch = (if truthy timingReport then match_wns (report_text timingReport) else None);
          synthesis_complete = truthy synthReport;
          timing_clean = (case wnsMatch of Some w \<Rightarrow> nonnegative (parseFloat w) | None \<Rightarrow> False);
          routing_complete = truthy finalSummary;
          issues = (if \<not> synthesis_complete then [''Synthesis incomplete''] else [])
                 @ (if \<not> timing_clean then [''Timing violations detected''] else [])
                 @ (if \<not> routing_complete then [''Routing incomplete''] else [])
      in JObj
        [(''project_id'', JStr projectId),
         (''run_id'', JStr latestRun),
         (''success'', JBool True),
         (''ppa_metrics'', JObj
            [(''power_mw'', JNull),
             (''max_frequency_mhz'', JNull),
             (''total_cells'', (case cellMatch of Some ds \<Rightarrow> JNum (parseInt ds) | None \<Rightarrow> JNull)),
             (''logic_area_um2'', JNull),
             (''timing_slack_ns'', (case wnsMatch of Some w \<Rightarrow> JNum (parseFloat w) | None \<Rightarrow> JNull))]),
         (''design_status'', JObj
            [(''synthesis_complete'', JBool synthesis_complete),
             (''timing_clean'', JBool timing_clean),
             (''routing_complete'', JBool routing_complete)]),
         (''reports'', JObj
            ((if truthy synthReport then [(''synthesis'', JStr (take 2000 (report_text synthReport)))] else [])
             @ (if truthy timingReport then [(''timing'', JStr (take 2000 (report_text timingReport)))] else [])
             @ (if truthy finalSummary then [(''final_summary'', JStr (take 3000 (report_text finalSummary)))] else []))),
         (''summary'', JObj
            [(''status'', JStr (if length issues = 0 then ''SUCCESS'' else ''ISSUES_FOUND'')),
             (''issues'', JArr (map JStr issues)),
             (''note'', JStr ''PPA metrics and design status extracted from OpenLane reports'')])])"

definition readOpenlaneReports :: "string \<Rightarrow> string \<Rightarrow> json io" where
  "readOpenlaneReports projectId reportType =
     try_catch
       (await (projects_get projectId) (\<lambda>project.
        case project of
          None \<Rightarrow> ret (failure (''Project '' @ projectId @ '' not found.''))
        | Some project \<Rightarrow>
            let runsDir = join [dir project, ''runs''] in
            await (try_catch
                     (await (fs_readdir runsDir) (\<lambda>runs.
                      if length runs = 0 then
                        ret (Inl (failure ''No OpenLane runs found. Run OpenLane flow first.''))
                      else ret (Inr (latest runs))))
                     (\<lambda>_. ret (Inl (failure ''No runs directory found. Run OpenLane flow first.''))))
              (\<lambda>found.
               case found of
                 Inl envelope \<Rightarrow> ret envelope
               | Inr latestRun \<Rightarrow>
                   let reportsDir = join [dir project, ''runs'', latestRun, ''reports''];
                       finalDir = join [dir project, ''runs'', latestRun, ''final''] in
                   await (readFile (join [reportsDir, ''synthesis'', ''1-synthesis.stat.rpt''])) (\<lambda>synthReport.
                   await (try_catch
                            (let routingDir = join [reportsDir, ''routing''] in
                             await (fs_readdir routingDir) (\<lambda>files. scan_timing routingDir files))
                            (\<lambda>_. ret None)) (\<lambda>timingReport.
                   await (readFile (join [finalDir, ''final.summary.rpt''])) (\<lambda>finalSummary.
                   ret (report_results projectId latestRun synthReport timingReport finalSummary)))))))
       (\<lambda>error. ret (failure (error_text error)))"

section \<open>Tool call handler\<close>

text \<open>
  The arguments of a tool call: absent, or an object mapping property names to values.
\<close>

type_synonym arguments = "(string \<rightharpoonup> json) option"

definition getStringProperty :: "arguments \<Rightarrow> string \<Rightarrow> string \<Rightarrow> string" where
  "getStringProperty obj key defaultValue =
     (case obj of
        None \<Rightarrow> defaultValue
      | Some props \<Rightarrow>
          (case props key of
             None \<Rightarrow> defaultValue
           | Some val \<Rightarrow> (case val of JStr v \<Rightarrow> v | _ \<Rightarrow> defaultValue)))"

definition getNumberProperty :: "arguments \<Rightarrow> string \<Rightarrow> number \<Rightarrow> number" where
  "getNumberProperty obj key defaultValue =
     (case obj of
        None \<Rightarrow> defaultValue
      | Some props \<Rightarrow>
          (case props key of
             None \<Rightarrow> defaultValue
           | Some val \<Rightarrow> (case val of JNum v \<Rightarrow> v | _ \<Rightarrow> defaultValue)))"

definition missing_parameter :: "string \<Rightarrow> string \<Rightarrow> string" where
  "missing_parameter key toolName =
     ''Missing required parameter '' @ [CHR 0x27] @ key @ [CHR 0x27] @ '' for tool ''
     @ [CHR 0x27] @ toolName @ [CHR 0x27]"

definition validateRequiredString :: "arguments \<Rightarrow> string \<Rightarrow> string \<Rightarrow> mcp_error + string" where
  "validateRequiredString obj key toolName =
     (let val = getStringProperty obj key [] in
      if val = [] then Inl (McpError InvalidParams (missing_parameter key toolName))
      else Inr val)"

text \<open>
  Running a driver inside the handler's \<open>try\<close>: an error that is not an \<open>McpError\<close> is
  wrapped as an internal error.
\<close>

definition run_driver :: "json io \<Rightarrow> state \<Rightarrow> (mcp_error + json) \<times> state" where
  "run_driver m s =
     (case m s of
        (Inr text, s') \<Rightarrow> (Inr text, s')
      | (Inl error, s') \<Rightarrow>
          (Inl (McpError InternalError (''Tool execution failed: '' @ message error)), s'))"

definition call_tool :: "string \<Rightarrow> arguments \<Rightarrow> state \<Rightarrow> (mcp_error + json) \<times> state" where
  "call_tool name args s =
     (if name = ''synthesize_verilog'' then
        (case validateRequiredString args ''verilog_code'' name of
           Inl e \<Rightarrow> (Inl e, s)
         | Inr verilogCode \<Rightarrow>
        (case validateRequiredString args ''top_module'' name of
           Inl e \<Rightarrow> (Inl e, s)
         | Inr topModule \<Rightarrow>
        let target = getStringProperty args ''target'' ''generic'' in
        run_driver (synthesizeVerilog verilogCode topModule target) s))
      else if name = ''simulate_verilog'' then
        (case validateRequiredString args ''verilog_code'' name of
           Inl e \<Rightarrow> (Inl e, s)
         | Inr verilogCode \<Rightarrow>
        (case validateRequiredString args ''testbench_code'' name of
           Inl e \<Rightarrow> (Inl e, s)
         | Inr testbenchCode \<Rightarrow>
        run_driver (simulateVerilog verilogCode testbenchCode) s))
      else if name = ''view_waveform'' then
        (case validateRequiredString args ''project_id'' name of
           Inl e \<Rightarrow> (Inl e, s)
         | Inr projectId \<Rightarrow>
        let vcdFile = getStringProperty args ''vcd_file'' ''output.vcd'' in
        run_driver (viewWaveform projectId vcdFile) s)
      else if name = ''run_openlane'' then
        (case validateRequiredString args ''verilog_code'' name of
           Inl e \<Rightarrow> (Inl e, s)
         | Inr verilogCode \<Rightarrow>
        (case validateRequiredString args ''design_name'' name of
           Inl e \<Rightarrow> (Inl e, s)
         | Inr designName \<Rightarrow>
        let clockPort = getStringProperty args ''clock_port'' ''clk'';
            clockPeriod = getNumberProperty args ''clock_period'' (Finite 10);
            openInKlayout = (case args of
                               None \<Rightarrow> False
                             | Some props \<Rightarrow> props ''open_in_klayout'' \<noteq> Some (JBool False)) in
        run_driver (runOpenlane verilogCode designName clockPort clockPeriod openInKlayout) s))
      else if name = ''view_gds'' then
        (case validateRequiredString args ''project_id'' name of
           Inl e \<Rightarrow> (Inl e, s)
         | Inr projectId \<Rightarrow>
        let gdsFile = getStringProperty args ''gds_file'' [] in
        run_driver (viewGds projectId gdsFile) s)
      else if name = ''read_openlane_reports'' then
        (case validateRequiredString args ''project_id'' name of
           Inl e \<Rightarrow> (Inl e, s)
         | Inr projectId \<Rightarrow>
        let reportType = getStringProperty args ''report_type'' [] in
        run_driver (readOpenlaneReports projectId reportType) s)
      else (Inl (McpError MethodNotFound (''Tool not found: '' @ name)), s))"

text \<open>The \<open>required\<close> lists of the tool schemas.\<close>

definition required_parameters :: "string \<Rightarrow> string list" where
  "required_parameters name =
     (if name = ''synthesize_verilog'' then [''verilog_code'', ''top_module'']
      else if name = ''simulate_verilog'' then [''verilog_code'', ''testbench_code'']
      else if name = ''view_waveform'' then [''project_id'']
      else if name = ''run_openlane'' then [''verilog_code'', ''design_name'']
      else if name = ''view_gds'' then [''project_id'']
      else if name = ''read_openlane_reports'' then [''project_id'']
      else [])"

section \<open>Observations on histories\<close>

text \<open>The signals sent to child processes and the identifiers drawn, in order.\<close>

fun kill_signal :: "action \<Rightarrow> string option" where
  "kill_signal (Kill sig) = Some sig"
| "kill_signal _ = None"

definition kills :: "action list \<Rightarrow> string list" where
  "kills h = List.map_filter kill_signal h"

fun drawn_token :: "action \<Rightarrow> string option" where
  "drawn_token (Random_token t) = Some t"
| "drawn_token _ = None"

definition drawn_tokens :: "action list \<Rightarrow> string list" where
  "drawn_tokens h = List.map_filter drawn_token h"

fun is_data :: "spawn_event \<Rightarrow> bool" where
  "is_data (Stdout_data d) = True"
| "is_data (Stderr_data d) = True"
| "is_data _ = False"

section \<open>Example environments\<close>

text \<open>
  A machine on which directories and files can be written, nothing can be read, every
  command exits with code 0 and the random source returns \<open>k3x9\<close>.
\<close>

definition plain_os :: environment where
  "plain_os =
     \<lparr>mkdir_result = (\<lambda>h p. None),
      writeFile_result = (\<lambda>h p c. None),
      readFile_result = (\<lambda>h p. Inl (Error ''ENOENT: no such file or directory'')),
      access_result = (\<lambda>h p. Some (Error ''ENOENT: no such file or directory'')),
      readdir_result = (\<lambda>h p. Inl (Error ''ENOENT: no such file or directory'')),
      exec_result = (\<lambda>h c opts. Exited 0 ''ok'' []),
      timed_exec_result = (\<lambda>h c opts t. (Process_ends (Exited 0 ''ok'' []), [])),
      random_result = (\<lambda>h. ''k3x9'')\<rparr>"

definition fresh_server :: "environment \<Rightarrow> state" where
  "fresh_server e =
     \<lparr>tempDir = ''/tmp/eda_mcp_1'', openlaneDir = ''/home/u/openlane-projects'',
      projects = Map.empty, os = e, history = []\<rparr>"

text \<open>The same machine, except that a command run under a timer is still running when it fires.\<close>

definition hanging_os :: environment where
  "hanging_os =
     plain_os\<lparr>timed_exec_result :=
       (\<lambda>h c opts t. (Timer_fires, [Process_ends (Signalled ''SIGKILL'' [] [])]))\<rparr>"

section \<open>A server run\<close>

text \<open>
  A run serves a list of tool calls, one after the other. The create calls are those of the
  three drivers that register a workspace; \<open>returned\<close> lists the identifiers that the
  successful create calls of a run handed to their callers, each with the kind of its call.
\<close>

type_synonym call = "string \<times> arguments"

fun serve :: "call list \<Rightarrow> state \<Rightarrow> (mcp_error + json) list \<times> state" where
  "serve [] s = ([], s)"
| "serve ((name, args) # calls) s =
     (case call_tool name args s of
        (r, s1) \<Rightarrow> (case serve calls s1 of (rs, s2) \<Rightarrow> (r # rs, s2)))"

definition workspace_kind :: "string \<Rightarrow> string option" where
  "workspace_kind name =
     (if name = ''synthesize_verilog'' then Some ''synthesis''
      else if name = ''simulate_verilog'' then Some ''simulation''
      else if name = ''run_openlane'' then Some ''openlane''
      else None)"

definition created :: "call \<Rightarrow> mcp_error + json \<Rightarrow> (string \<times> string) option" where
  "created c r =
     (case workspace_kind (fst c) of
        None \<Rightarrow> None
      | Some kind \<Rightarrow>
          (case r of
             Inl _ \<Rightarrow> None
           | Inr j \<Rightarrow> (case field j ''project_id'' of Some (JStr i) \<Rightarrow> Some (i, kind) | _ \<Rightarrow> None)))"

definition returned :: "call list \<Rightarrow> (mcp_error + json) list \<Rightarrow> (string \<times> string) list" where
  "returned calls rs = List.map_filter (\<lambda>(c, r). created c r) (zip calls rs)"

text \<open>The identifier a project directory ends with: what follows its last underscore.\<close>

definition id_of_dir :: "path \<Rightarrow> string" where
  "id_of_dir d = rev (takeWhile (\<lambda>c. c \<noteq> CHR ''_'') (rev d))"

section \<open>Predicates on effectful computations\<close>

text \<open>
  A computation is registry-free when it neither reads nor writes the project registry and
  draws no identifier: started with any registry, it returns the same result and extends
  the history in the same way.
\<close>

definition registry_free :: "'a io \<Rightarrow> bool" where
  "registry_free m =
     (\<forall>s. \<exists>r h. drawn_tokens h = [] \<and>
        (\<forall>X. m (s\<lparr>projects := X\<rparr>) = (r, s\<lparr>history := history s @ h, projects := X\<rparr>)))"

text \<open>
  \<open>succeeds m P\<close>: \<open>m\<close> never throws and its result satisfies \<open>P\<close>;
  \<open>returns m P\<close>: whenever \<open>m\<close> does not throw, its result satisfies \<open>P\<close>.
\<close>

definition succeeds :: "'a io \<Rightarrow> ('a \<Rightarrow> bool) \<Rightarrow> bool" where
  "succeeds m P = (\<forall>s. \<exists>a s'. m s = (Inr a, s') \<and> P a)"

definition returns :: "'a io \<Rightarrow> ('a \<Rightarrow> bool) \<Rightarrow> bool" where
  "returns m P = (\<forall>s a s'. m s = (Inr a, s') \<longrightarrow> P a)"

text \<open>
  \<open>succeeds_in E m P\<close>: on a machine that behaves as \<open>E\<close>, \<open>m\<close> never throws and its
  result satisfies \<open>P\<close>.
\<close>

definition succeeds_in :: "environment \<Rightarrow> 'a io \<Rightarrow> ('a \<Rightarrow> bool) \<Rightarrow> bool" where
  "succeeds_in E m P = (\<forall>s. os s = E \<longrightarrow> (\<exists>a s'. m s = (Inr a, s') \<and> os s' = E \<and> P a))"


text \<open>
  What a driver call may change: a create call draws one identifier and at most stores one
  project under it; every other call leaves the registry as it was.
\<close>

definition registers :: "string \<Rightarrow> state \<Rightarrow> (js_error + json) \<Rightarrow> state \<Rightarrow> bool" where
  "registers kind s r s' =
     (os s' = os s \<and> tempDir s' = tempDir s \<and> openlaneDir s' = openlaneDir s \<and>
      (\<exists>t h p. history s' = history s @ Random_token t # h \<and> drawn_tokens h = [] \<and> type p = kind
          \<and> (is_token t \<longrightarrow> id_of_dir (dir p) = t)
          \<and> (projects s' = projects s \<or> projects s' = (projects s)(t \<mapsto> p))
          \<and> (\<forall>j v. r = Inr j \<longrightarrow> field j ''project_id'' = Some v \<longrightarrow>
                 v = JStr t \<and> projects s' = (projects s)(t \<mapsto> p))))"

definition untouched :: "state \<Rightarrow> state \<Rightarrow> bool" where
  "untouched s s' =
     (projects s' = projects s \<and> os s' = os s \<and> tempDir s' = tempDir s
      \<and> openlaneDir s' = openlaneDir s
      \<and> (\<exists>h. history s' = history s @ h \<and> drawn_tokens h = []))"

definition call_effect :: "call \<Rightarrow> state \<Rightarrow> mcp_error + json \<Rightarrow> state \<Rightarrow> bool" where
  "call_effect c s r s' =
     (os s' = os s \<and> tempDir s' = tempDir s \<and> openlaneDir s' = openlaneDir s \<and>
      (\<exists>h. history s' = history s @ h \<and> length (drawn_tokens h) \<le> 1
         \<and> (\<forall>k. projects s' k \<noteq> projects s k \<longrightarrow>
                k \<in> set (drawn_tokens h)
                \<and> (\<exists>p. projects s' k = Some p \<and> (is_token k \<longrightarrow> id_of_dir (dir p) = k)))
         \<and> (\<forall>i kind. created c r = Some (i, kind) \<longrightarrow>
                i \<in> set (drawn_tokens h) \<and> (\<exists>p. projects s' i = Some p \<and> type p = kind))))"

section \<open>More example environments\<close>

text \<open>
  Machines on which every directory is empty, and on which one simulation workspace holds
  a \<open>runs\<close> directory with one entry; servers that have registered one workspace.
\<close>

definition empty_runs_os :: environment where
  "empty_runs_os = plain_os\<lparr>readdir_result := (\<lambda>h p. Inr [])\<rparr>"

definition one_run_os :: environment where
  "one_run_os =
     plain_os\<lparr>readdir_result :=
       (\<lambda>h p. if p = ''/tmp/eda_mcp_1/sim_project_k3x9/runs'' then Inr [''RUN_1'']
              else Inl (Error ''ENOENT: no such file or directory''))\<rparr>"

definition simulation_server :: "environment \<Rightarrow> state" where
  "simulation_server e =
     (fresh_server e)\<lparr>projects :=
        [''k3x9'' \<mapsto> \<lparr>dir = ''/tmp/eda_mcp_1/sim_project_k3x9'', type = ''simulation''\<rparr>]\<rparr>"

definition flow_server :: "environment \<Rightarrow> state" where
  "flow_server e =
     (fresh_server e)\<lparr>projects :=
        [''k3x9'' \<mapsto> \<lparr>dir = ''/home/u/openlane-projects/counter_k3x9'', type = ''openlane''\<rparr>]\<rparr>"



text \<open>
  A machine on which every command outlives its budget. A command started by \<open>exec\<close> with
  a \<open>timeout\<close> option is ended by \<open>exec\<close> itself, with its default kill signal
  \<open>SIGTERM\<close>, and reported as any other command ended by a signal.
\<close>

definition slow_os :: environment where
  "slow_os =
     hanging_os\<lparr>exec_result :=
       (\<lambda>h c opts. case timeout opts of
                      Some t \<Rightarrow> Signalled ''SIGTERM'' [] []
                    | None \<Rightarrow> Exited 0 ''ok'' [])\<rparr>"




text \<open>
  A machine whose random source returns the number of identifiers drawn so far, and two
  create calls.
\<close>

definition counting_os :: environment where
  "counting_os = plain_os\<lparr>random_result := (\<lambda>h. show_nat (length (drawn_tokens h)))\<rparr>"

definition synth_call :: call where
  "synth_call =
     (''synthesize_verilog'',
      Some [''verilog_code'' \<mapsto> JStr ''module m; endmodule'', ''top_module'' \<mapsto> JStr ''m''])"

definition sim_call :: call where
  "sim_call =
     (''simulate_verilog'',
      Some [''verilog_code'' \<mapsto> JStr ''module m; endmodule'',
            ''testbench_code'' \<mapsto> JStr ''module tb; endmodule''])"

section \<open>Process Runner: settling and signals\<close>

lemma kills_append [simp]: "kills (a @ b) = kills a @ kills b"
  by (simp add: kills_def map_filter_def)

lemma kills_simps [simp]:
  "kills [] = []" "kills (Kill sig # h) = sig # kills h"
  "kills (ClearTimeout # h) = kills h" "kills (SetTimeout n # h) = kills h"
  "kills (Exec c opts # h) = kills h" "kills (Spawn c as opts # h) = kills h"
  by (simp_all add: kills_def map_filter_simps)

lemma promise_resolve [simp]:
  "promise (resolve v r) = (if promise r = Pending then Resolved v else promise r)"
  "timer_state (resolve v r) = timer_state r" "effects (resolve v r) = effects r"
  by (simp_all add: resolve_def)

lemma promise_reject [simp]:
  "promise (reject e r) = (if promise r = Pending then Rejected e else promise r)"
  "timer_state (reject e r) = timer_state r" "effects (reject e r) = effects r"
  by (simp_all add: reject_def)

lemma clearTimeout_simps [simp]:
  "promise (clearTimeout r) = promise r"
  "timer_state (clearTimeout r) = (if timer_state r = Armed then Cleared else timer_state r)"
  "effects (clearTimeout r) = effects r @ [ClearTimeout]"
  by (simp_all add: clearTimeout_def)

lemma kill_simps [simp]:
  "promise (kill sig r) = promise r" "timer_state (kill sig r) = timer_state r"
  "effects (kill sig r) = effects r @ [Kill sig]"
  by (simp_all add: kill_def)

lemma exec_step_settled:
  "promise r \<noteq> Pending \<Longrightarrow> promise (exec_step c t r e) = promise r"
  by (cases e) (auto simp: Let_def split: prod.splits option.splits)

lemma exec_step_disarmed:
  "timer_state r \<noteq> Armed \<Longrightarrow>
     timer_state (exec_step c t r e) = timer_state r \<and> kills (effects (exec_step c t r e)) = kills (effects r)"
  by (cases e) (auto simp: Let_def split: prod.splits option.splits)

lemma exec_run_settled:
  "promise r \<noteq> Pending \<Longrightarrow> timer_state r \<noteq> Armed \<Longrightarrow>
     promise (foldl (exec_step c t) r es) = promise r
     \<and> timer_state (foldl (exec_step c t) r es) = timer_state r
     \<and> kills (effects (foldl (exec_step c t) r es)) = kills (effects r)"
proof (induction es arbitrary: r)
  case Nil
  then show ?case by simp
next
  case (Cons e es)
  have "promise (exec_step c t r e) \<noteq> Pending" "timer_state (exec_step c t r e) \<noteq> Armed"
    using Cons.prems exec_step_settled exec_step_disarmed by metis+
  from Cons.IH[OF this] show ?case
    using Cons.prems exec_step_settled exec_step_disarmed by simp
qed

lemma exec_timeout_first:
  "promise (execAsyncWithTimeout_run command options timeoutMs (Timer_fires # later)) = Rejected (exec_timed_out timeoutMs command)
   \<and> timer_state (execAsyncWithTimeout_run command options timeoutMs (Timer_fires # later)) = Fired
   \<and> kills (effects (execAsyncWithTimeout_run command options timeoutMs (Timer_fires # later))) = [''SIGKILL'']"
  unfolding execAsyncWithTimeout_run_def
  by (simp add: exec_run_settled)

lemma exec_completes_first:
  "promise (execAsyncWithTimeout_run command options timeoutMs (Process_ends pe # later))
     = (case promisified (exec_callback command pe) of Inl e \<Rightarrow> Rejected e | Inr v \<Rightarrow> Resolved v)
   \<and> timer_state (execAsyncWithTimeout_run command options timeoutMs (Process_ends pe # later)) = Cleared
   \<and> kills (effects (execAsyncWithTimeout_run command options timeoutMs (Process_ends pe # later))) = []"
  unfolding execAsyncWithTimeout_run_def
  apply (simp add: Let_def split: prod.splits option.splits)
  apply (auto simp: exec_run_settled promisified_def)
  done

lemma spawn_step_settled:
  "promise r \<noteq> Pending \<Longrightarrow> promise (spawn_step c as t r e) = promise r"
  by (cases e) (auto simp: Let_def)

lemma spawn_step_disarmed:
  "timer_state r \<noteq> Armed \<Longrightarrow>
     timer_state (spawn_step c as t r e) = timer_state r
     \<and> kills (effects (spawn_step c as t r e)) = kills (effects r)"
  by (cases e) (auto simp: Let_def)

lemma spawn_run_settled:
  "promise r \<noteq> Pending \<Longrightarrow> timer_state r \<noteq> Armed \<Longrightarrow>
     promise (foldl (spawn_step c as t) r es) = promise r
     \<and> timer_state (foldl (spawn_step c as t) r es) = timer_state r
     \<and> kills (effects (foldl (spawn_step c as t) r es)) = kills (effects r)"
proof (induction es arbitrary: r)
  case Nil
  then show ?case by simp
next
  case (Cons e es)
  have "promise (spawn_step c as t r e) \<noteq> Pending" "timer_state (spawn_step c as t r e) \<noteq> Armed"
    using Cons.prems spawn_step_settled spawn_step_disarmed by metis+
  from Cons.IH[OF this] show ?case
    using Cons.prems spawn_step_settled spawn_step_disarmed by simp
qed

text \<open>Output chunks only fill the buffers.\<close>

lemma spawn_data:
  "list_all is_data ds \<Longrightarrow>
     promise (foldl (spawn_step c as t) r ds) = promise r
     \<and> timer_state (foldl (spawn_step c as t) r ds) = timer_state r
     \<and> effects (foldl (spawn_step c as t) r ds) = effects r"
proof (induction ds arbitrary: r)
  case Nil
  then show ?case by simp
next
  case (Cons d ds)
  then show ?case by (cases d) simp_all
qed

lemma spawn_timeout_first:
  assumes "list_all is_data ds"
  shows "promise (spawnAsyncWithTimeout command args options timeoutMs (ds @ Spawn_timer_fires # later))
           = Rejected (spawn_timed_out timeoutMs command args)
   \<and> kills (effects (spawnAsyncWithTimeout command args options timeoutMs (ds @ Spawn_timer_fires # later))) = [''SIGKILL'']"
  unfolding spawnAsyncWithTimeout_def
  using spawn_data[OF assms]
  by (simp add: spawn_run_settled)

lemma spawn_close_first:
  assumes "list_all is_data ds"
  shows "promise (spawnAsyncWithTimeout command args options timeoutMs (ds @ Close code # later)) \<noteq> Pending
   \<and> timer_state (spawnAsyncWithTimeout command args options timeoutMs (ds @ Close code # later)) = Cleared
   \<and> kills (effects (spawnAsyncWithTimeout command args options timeoutMs (ds @ Close code # later))) = []"
  unfolding spawnAsyncWithTimeout_def
  using spawn_data[OF assms]
  by (simp add: spawn_run_settled Let_def)

lemma sublist_mid: "sublist x (a @ x @ b)"
  by (rule sublist_appendI)

lemma sublist_end: "sublist x (a @ x)"
  using sublist_appendI[of x a "[]"] by simp

lemma sublist_end2: "sublist x (a @ b @ c @ x)"
  using sublist_end[of x "a @ b @ c"] by simp

lemma timed_out_names:
  "sublist command (message (exec_timed_out timeoutMs command))"
  "sublist (show_nat timeoutMs) (message (exec_timed_out timeoutMs command))"
  "sublist command (message (spawn_timed_out timeoutMs command args))"
  "sublist (show_nat timeoutMs) (message (spawn_timed_out timeoutMs command args))"
proof -
  show "sublist command (message (exec_timed_out timeoutMs command))"
    unfolding exec_timed_out_def js_error.sel by (rule sublist_end2)
  show "sublist (show_nat timeoutMs) (message (exec_timed_out timeoutMs command))"
    unfolding exec_timed_out_def js_error.sel by (rule sublist_mid)
  show "sublist command (message (spawn_timed_out timeoutMs command args))"
    unfolding spawn_timed_out_def js_error.sel
    using sublist_appendI[of command "''Command timed out after '' @ show_nat timeoutMs @ ''ms: ''" "'' '' @ args_join args"]
    by simp
  show "sublist (show_nat timeoutMs) (message (spawn_timed_out timeoutMs command args))"
    unfolding spawn_timed_out_def js_error.sel by (rule sublist_mid)
qed

lemma execAsyncWithTimeout_settled:
  "promise (execAsyncWithTimeout_run command options timeoutMs (e # es)) \<noteq> Pending"
  by (cases e) (simp_all add: exec_timeout_first exec_completes_first split: sum.splits)

lemma execAsync_sends_no_signal:
  "kills (history (snd (execAsync command options s))) = kills (history s)"
  by (simp add: execAsync_def record_action_def)

lemma synthesize_exec_signalled:
  assumes mk: "\<And>h p. mkdir_result (os s) h p = None"
    and wr: "\<And>h p c. writeFile_result (os s) h p c = None"
    and t: "t = random_result (os s) (history s)"
    and d: "d = join [tempDir s, ''project_'' @ t]"
    and ex: "\<And>h. exec_result (os s) h (''yosys -s '' @ join [d, ''synth.ys''])
                   (no_options\<lparr>cwd := Some d, timeout := Some 120000\<rparr>) = Signalled sig out err"
  shows "synthesizeVerilog verilogCode topModule target s
           = (Inr (JObj [(''success'', JBool False),
                         (''error'', JStr (''Command failed: yosys -s '' @ join [d, ''synth.ys''] @ nl @ err))]),
              s\<lparr>projects := (projects s)(t \<mapsto> \<lparr>dir = d, type = ''synthesis''\<rparr>),
                history := history s @
                  [Random_token t, Mkdir d,
                   WriteFile (join [d, ''design.v'']) (Text verilogCode),
                   WriteFile (join [d, ''synth.ys'']) (Text (synth_script target topModule)),
                   Exec (''yosys -s '' @ join [d, ''synth.ys''])
                     (no_options\<lparr>cwd := Some d, timeout := Some 120000\<rparr>)]\<rparr>)"
  using ex unfolding synthesizeVerilog_def d t
  by (simp add: try_catch_def await_def random_token_def reads_def fs_mkdir_def projects_set_def
      fs_writeFile_def execAsync_def ret_def record_action_def of_option_def Let_def
      mk wr promisified_def failure_def error_text_def command_failed_def)

text \<open>
  C2, as stated, fails: the synthesis driver starts yosys with \<open>execAsync\<close> under the
  \<open>timeout\<close> option of \<open>exec\<close>. When the budget of 120000 ms elapses, \<open>exec\<close> ends the
  process with \<open>SIGTERM\<close>, which a process can catch; the server sends no signal, and the
  error message names the command but not the budget.
\<close>

theorem exec_timeout_counterexample:
  "exec_result (os (fresh_server slow_os)) [] ''yosys -s /tmp/eda_mcp_1/project_k3x9/synth.ys''
       (no_options\<lparr>cwd := Some ''/tmp/eda_mcp_1/project_k3x9'', timeout := Some 120000\<rparr>)
     = Signalled ''SIGTERM'' [] []
   \<and> fst (synthesizeVerilog ''module m; endmodule'' ''m'' ''generic'' (fresh_server slow_os))
       = Inr (JObj [(''success'', JBool False),
                    (''error'', JStr (''Command failed: yosys -s /tmp/eda_mcp_1/project_k3x9/synth.ys'' @ nl))])
   \<and> kills (history (snd (synthesizeVerilog ''module m; endmodule'' ''m'' ''generic''
                             (fresh_server slow_os)))) = []
   \<and> \<not> sublist ''120000'' (''Command failed: yosys -s /tmp/eda_mcp_1/project_k3x9/synth.ys'' @ nl)"
proof -
  let ?s = "fresh_server slow_os"
  have mk: "mkdir_result (os ?s) h p = None" for h p
    by (simp add: fresh_server_def slow_os_def hanging_os_def plain_os_def)
  have wr: "writeFile_result (os ?s) h p c = None" for h p c
    by (simp add: fresh_server_def slow_os_def hanging_os_def plain_os_def)
  have t: "''k3x9'' = random_result (os ?s) (history ?s)"
    by (simp add: fresh_server_def slow_os_def hanging_os_def plain_os_def)
  have d: "''/tmp/eda_mcp_1/project_k3x9'' = join [tempDir ?s, ''project_'' @ ''k3x9'']"
    unfolding fresh_server_def by code_simp
  have j: "join [''/tmp/eda_mcp_1/project_k3x9'', ''synth.ys''] = ''/tmp/eda_mcp_1/project_k3x9/synth.ys''"
    by code_simp
  have ex: "exec_result (os ?s) h c (no_options\<lparr>cwd := Some ''/tmp/eda_mcp_1/project_k3x9'',
                                                   timeout := Some 120000\<rparr>)
              = Signalled ''SIGTERM'' [] []" for h c
    by (simp add: fresh_server_def slow_os_def hanging_os_def plain_os_def)
  have n: "\<not> sublist ''120000'' (''Command failed: yosys -s /tmp/eda_mcp_1/project_k3x9/synth.ys'' @ nl)"
    by code_simp
  have h0: "history ?s = []" by (simp add: fresh_server_def)
  show ?thesis
    using n ex[of "[]" "''yosys -s /tmp/eda_mcp_1/project_k3x9/synth.ys''"]
    by (simp add: synthesize_exec_signalled[OF mk wr t d ex] j h0 kills_def map_filter_def)
qed

text \<open>
  C2, amended. When the timer of \<open>execAsyncWithTimeout\<close> or \<open>spawnAsyncWithTimeout\<close> fires
  before the command has completed, the child is sent \<open>SIGKILL\<close> and the promise is
  rejected, whatever happens later, with an error whose message contains the command text
  and the timeout budget; the awaiting driver receives that error. When the command
  completes first, the timer is cleared and no signal is sent. For a command started with
  \<open>execAsync\<close> the server only starts the command: it arms no timer and sends no signal;
  when the command is ended by a signal, as \<open>exec\<close> does on its own timeout, the call
  fails with \<open>Command failed: <command>\n<stderr>\<close>.
\<close>

theorem process_runner_timeout:
  assumes "list_all is_data chunks"
    and "timed_exec_result (os s) (history s) command (execOptions options) timeoutMs
           = (Timer_fires, later)"
  shows
    "(let r = execAsyncWithTimeout_run command options timeoutMs (Timer_fires # later) in
        promise r = Rejected (Error (''Command timed out after '' @ show_nat timeoutMs @ ''ms: '' @ command))
        \<and> kills (effects r) = [''SIGKILL''])
     \<and> (let r = spawnAsyncWithTimeout command args options timeoutMs (chunks @ Spawn_timer_fires # events) in
        promise r = Rejected (Error (''Command timed out after '' @ show_nat timeoutMs @ ''ms: ''
                                     @ command @ '' '' @ args_join args))
        \<and> kills (effects r) = [''SIGKILL''])
     \<and> sublist command (message (exec_timed_out timeoutMs command))
     \<and> sublist (show_nat timeoutMs) (message (exec_timed_out timeoutMs command))
     \<and> sublist command (message (spawn_timed_out timeoutMs command args))
     \<and> sublist (show_nat timeoutMs) (message (spawn_timed_out timeoutMs command args))
     \<and> (case execAsyncWithTimeout command options timeoutMs s of
          (r, s') \<Rightarrow> r = Inl (exec_timed_out timeoutMs command)
                     \<and> kills (history s') = kills (history s) @ [''SIGKILL''])
     \<and> (let r = execAsyncWithTimeout_run command options timeoutMs (Process_ends pe # later) in
        promise r \<noteq> Pending \<and> timer_state r = Cleared \<and> kills (effects r) = [])
     \<and> (let r = spawnAsyncWithTimeout command args options timeoutMs (chunks @ Close code # events) in
        promise r \<noteq> Pending \<and> timer_state r = Cleared \<and> kills (effects r) = [])
     \<and> history (snd (execAsync command options s)) = history s @ [Exec command options]
     \<and> kills (history (snd (execAsync command options s))) = kills (history s)
     \<and> (exec_result (os s) (history s) command options = Signalled sig out err \<longrightarrow>
          fst (execAsync command options s)
            = Inl (Error (''Command failed: '' @ command @ nl @ err)))"
proof -
  have io: "case execAsyncWithTimeout command options timeoutMs s of
          (r, s') \<Rightarrow> r = Inl (exec_timed_out timeoutMs command)
                     \<and> kills (history s') = kills (history s) @ [''SIGKILL'']"
    using assms(2) exec_timeout_first[of command options timeoutMs later]
    by (simp add: execAsyncWithTimeout_def)
  have done_first: "promise (execAsyncWithTimeout_run command options timeoutMs (Process_ends pe # later)) \<noteq> Pending"
    by (rule execAsyncWithTimeout_settled)
  have plain: "exec_result (os s) (history s) command options = Signalled sig out err \<longrightarrow>
          fst (execAsync command options s)
            = Inl (Error (''Command failed: '' @ command @ nl @ err))"
    by (simp add: execAsync_def promisified_def command_failed_def)
  have hist: "history (snd (execAsync command options s)) = history s @ [Exec command options]"
    by (simp add: execAsync_def record_action_def)
  show ?thesis
    using io done_first plain hist execAsync_sends_no_signal[of command options s]
      exec_timeout_first[of command options timeoutMs later]
      spawn_timeout_first[OF assms(1), of command args options timeoutMs events]
      exec_completes_first[of command options timeoutMs pe later]
      spawn_close_first[OF assms(1), of command args options timeoutMs code events]
      timed_out_names
    by (simp add: Let_def exec_timed_out_def spawn_timed_out_def)
qed

theorem process_runner_timeout_witness:
  "list_all is_data [Stdout_data ''synthesizing'']
   \<and> timed_exec_result (os (fresh_server slow_os)) (history (fresh_server slow_os))
        ''sleep 100'' (execOptions (no_options\<lparr>timeout := Some 1000\<rparr>)) 1000
       = (Timer_fires, [Process_ends (Signalled ''SIGKILL'' [] [])])
   \<and> exec_result (os (fresh_server slow_os)) (history (fresh_server slow_os))
        ''sleep 100'' (no_options\<lparr>timeout := Some 1000\<rparr>)
       = Signalled ''SIGTERM'' [] []
   \<and> fst (execAsyncWithTimeout ''sleep 100'' (no_options\<lparr>timeout := Some 1000\<rparr>) 1000
             (fresh_server slow_os))
       = Inl (Error (''Command timed out after '' @ show_nat 1000 @ ''ms: sleep 100''))
   \<and> kills (history (snd (execAsyncWithTimeout ''sleep 100'' (no_options\<lparr>timeout := Some 1000\<rparr>) 1000
                             (fresh_server slow_os))))
       = [''SIGKILL'']
   \<and> fst (execAsync ''sleep 100'' (no_options\<lparr>timeout := Some 1000\<rparr>) (fresh_server slow_os))
       = Inl (Error (''Command failed: sleep 100'' @ nl))
   \<and> history (snd (execAsync ''sleep 100'' (no_options\<lparr>timeout := Some 1000\<rparr>)
                      (fresh_server slow_os)))
       = [Exec ''sleep 100'' (no_options\<lparr>timeout := Some 1000\<rparr>)]
   \<and> show_nat 1000 = ''1000''"
proof -
  let ?s = "fresh_server slow_os"
  let ?o = "no_options\<lparr>timeout := Some 1000\<rparr>"
  have h1: "list_all is_data [Stdout_data ''synthesizing'']" by simp
  have h2: "timed_exec_result (os ?s) (history ?s) ''sleep 100'' (execOptions ?o) 1000
       = (Timer_fires, [Process_ends (Signalled ''SIGKILL'' [] [])])"
    by (simp add: fresh_server_def slow_os_def hanging_os_def plain_os_def)
  have h3: "show_nat 1000 = ''1000''" by code_simp
  have h4: "kills (history ?s) = []" "history ?s = []" by (simp_all add: fresh_server_def)
  have h5: "exec_result (os ?s) (history ?s) ''sleep 100'' ?o = Signalled ''SIGTERM'' [] []"
    by (simp add: fresh_server_def slow_os_def hanging_os_def plain_os_def no_options_def)
  show ?thesis
    using h1 h2 h3 h4 h5
      process_runner_timeout[OF h1 h2, of "[]" "[]" "Exited 0 [] []" None "''SIGTERM''" "[]" "[]"]
    by (simp add: exec_timed_out_def split: prod.splits)
qed

section \<open>Parameter validation\<close>

lemma call_tool_invalid:
  assumes "find (\<lambda>k. getStringProperty args k [] = []) (required_parameters name) = Some key"
  shows "call_tool name args s = (Inl (McpError InvalidParams (missing_parameter key name)), s)"
  using assms
  by (auto simp: call_tool_def required_parameters_def validateRequiredString_def Let_def split: if_splits)

lemma missing_parameter_names:
  "sublist key (missing_parameter key toolName)" "sublist toolName (missing_parameter key toolName)"
proof -
  show "sublist key (missing_parameter key toolName)"
    unfolding missing_parameter_def
    using sublist_appendI[of key "''Missing required parameter '' @ [CHR 0x27]"
            "[CHR 0x27] @ '' for tool '' @ [CHR 0x27] @ toolName @ [CHR 0x27]"]
    by simp
  show "sublist toolName (missing_parameter key toolName)"
    unfolding missing_parameter_def
    using sublist_appendI[of toolName "''Missing required parameter '' @ [CHR 0x27] @ key @ [CHR 0x27] @ '' for tool '' @ [CHR 0x27]" "[CHR 0x27]"]
    by simp
qed

lemma find_invalid_exists:
  assumes "key \<in> set ks" "P key"
  shows "\<exists>k. find P ks = Some k \<and> k \<in> set ks \<and> P k"
  using assms by (induction ks) auto

lemma find_first:
  assumes "key \<in> set ks" "P key" "\<forall>k \<in> set (takeWhile (\<lambda>k. k \<noteq> key) ks). \<not> P k"
  shows "find P ks = Some key"
  using assms by (induction ks) auto

lemma find_Some_before:
  "find P ks = Some k \<Longrightarrow> k \<in> set ks \<and> P k \<and> (\<forall>j \<in> set (takeWhile (\<lambda>j. j \<noteq> k) ks). \<not> P j)"
  by (induction ks) (auto split: if_splits)

text \<open>
  C6, as stated, fails: a \<open>synthesize_verilog\<close> call that omits \<open>top_module\<close> and gives
  \<open>verilog_code\<close> as the empty string is answered with an error that names
  \<open>verilog_code\<close>; the omitted parameter is not named.
\<close>

theorem missing_parameter_counterexample:
  "''top_module'' \<in> set (required_parameters ''synthesize_verilog'')
   \<and> [''verilog_code'' \<mapsto> JStr []] ''top_module'' = None
   \<and> call_tool ''synthesize_verilog'' (Some [''verilog_code'' \<mapsto> JStr []]) (fresh_server plain_os)
        = (Inl (McpError InvalidParams
             (''Missing required parameter '' @ [CHR 0x27] @ ''verilog_code'' @ [CHR 0x27] @ '' for tool ''
              @ [CHR 0x27] @ ''synthesize_verilog'' @ [CHR 0x27])),
           fresh_server plain_os)
   \<and> \<not> sublist ''top_module''
         (''Missing required parameter '' @ [CHR 0x27] @ ''verilog_code'' @ [CHR 0x27] @ '' for tool ''
          @ [CHR 0x27] @ ''synthesize_verilog'' @ [CHR 0x27])"
proof -
  have r: "''top_module'' \<in> set (required_parameters ''synthesize_verilog'')"
    by (simp add: required_parameters_def)
  have f: "find (\<lambda>k. getStringProperty (Some [''verilog_code'' \<mapsto> JStr []]) k [] = [])
             (required_parameters ''synthesize_verilog'') = Some ''verilog_code''"
    by (simp add: required_parameters_def getStringProperty_def)
  have n: "\<not> sublist ''top_module''
         (''Missing required parameter '' @ [CHR 0x27] @ ''verilog_code'' @ [CHR 0x27] @ '' for tool ''
          @ [CHR 0x27] @ ''synthesize_verilog'' @ [CHR 0x27])"
    by code_simp
  show ?thesis
    using r n call_tool_invalid[OF f, of "fresh_server plain_os"]
    by (simp add: missing_parameter_def)
qed

text \<open>
  C6, amended. A tool call that omits a required parameter (no arguments at all, or an
  object without that property) is answered with an \<open>McpError\<close> of code \<open>InvalidParams\<close>,
  thrown by the handler and not wrapped in an envelope, and no driver runs: the state is
  unchanged. The message names the tool and the first required parameter, in the order
  in which the handler validates them, that has no non-empty string value; this is the
  omitted parameter itself whenever every required parameter validated before it has a
  non-empty string value.
\<close>

theorem missing_required_parameter:
  assumes "key \<in> set (required_parameters name)"
    and "args = None \<or> (\<exists>props. args = Some props \<and> props key = None)"
  shows "(\<exists>k \<in> set (required_parameters name).
            getStringProperty args k [] = []
            \<and> (\<forall>j \<in> set (takeWhile (\<lambda>j. j \<noteq> k) (required_parameters name)).
                  getStringProperty args j [] \<noteq> [])
            \<and> call_tool name args s = (Inl (McpError InvalidParams (missing_parameter k name)), s)
            \<and> sublist k (missing_parameter k name) \<and> sublist name (missing_parameter k name))
       \<and> ((\<forall>j \<in> set (takeWhile (\<lambda>j. j \<noteq> key) (required_parameters name)).
              getStringProperty args j [] \<noteq> [])
           \<longrightarrow> call_tool name args s
                 = (Inl (McpError InvalidParams (missing_parameter key name)), s)
               \<and> sublist key (missing_parameter key name)
               \<and> sublist name (missing_parameter key name))"
proof
  have inv: "getStringProperty args key [] = []"
    using assms(2) by (auto simp: getStringProperty_def)
  from find_invalid_exists[of key _ "\<lambda>k. getStringProperty args k [] = []", OF assms(1) inv]
  obtain k where k: "find (\<lambda>k. getStringProperty args k [] = []) (required_parameters name) = Some k"
    by blast
  from find_Some_before[OF k] call_tool_invalid[OF k] missing_parameter_names
  show "\<exists>k \<in> set (required_parameters name).
            getStringProperty args k [] = []
            \<and> (\<forall>j \<in> set (takeWhile (\<lambda>j. j \<noteq> k) (required_parameters name)).
                  getStringProperty args j [] \<noteq> [])
            \<and> call_tool name args s = (Inl (McpError InvalidParams (missing_parameter k name)), s)
            \<and> sublist k (missing_parameter k name) \<and> sublist name (missing_parameter k name)"
    by blast
  show "(\<forall>j \<in> set (takeWhile (\<lambda>j. j \<noteq> key) (required_parameters name)).
              getStringProperty args j [] \<noteq> [])
           \<longrightarrow> call_tool name args s
                 = (Inl (McpError InvalidParams (missing_parameter key name)), s)
               \<and> sublist key (missing_parameter key name)
               \<and> sublist name (missing_parameter key name)"
  proof
    assume b: "\<forall>j \<in> set (takeWhile (\<lambda>j. j \<noteq> key) (required_parameters name)).
              getStringProperty args j [] \<noteq> []"
    have "find (\<lambda>k. getStringProperty args k [] = []) (required_parameters name) = Some key"
      using assms(1) inv b by (intro find_first) auto
    from call_tool_invalid[OF this] missing_parameter_names
    show "call_tool name args s
                 = (Inl (McpError InvalidParams (missing_parameter key name)), s)
               \<and> sublist key (missing_parameter key name)
               \<and> sublist name (missing_parameter key name)"
      by blast
  qed
qed

theorem missing_required_parameter_witness:
  "''top_module'' \<in> set (required_parameters ''synthesize_verilog'')
   \<and> [''verilog_code'' \<mapsto> JStr ''module m; endmodule''] ''top_module'' = None
   \<and> takeWhile (\<lambda>j. j \<noteq> ''top_module'') (required_parameters ''synthesize_verilog'')
        = [''verilog_code'']
   \<and> getStringProperty (Some [''verilog_code'' \<mapsto> JStr ''module m; endmodule'']) ''verilog_code'' []
        = ''module m; endmodule''
   \<and> call_tool ''synthesize_verilog'' (Some [''verilog_code'' \<mapsto> JStr ''module m; endmodule''])
        (fresh_server plain_os)
      = (Inl (McpError InvalidParams
           (''Missing required parameter '' @ [CHR 0x27] @ ''top_module'' @ [CHR 0x27] @ '' for tool ''
            @ [CHR 0x27] @ ''synthesize_verilog'' @ [CHR 0x27])),
         fresh_server plain_os)"
proof -
  have h1: "''top_module'' \<in> set (required_parameters ''synthesize_verilog'')"
    by (simp add: required_parameters_def)
  have h2: "Some [''verilog_code'' \<mapsto> JStr ''module m; endmodule''] = None
            \<or> (\<exists>props. Some [''verilog_code'' \<mapsto> JStr ''module m; endmodule''] = Some props
                        \<and> props ''top_module'' = None)"
    by simp
  have h3: "\<forall>j \<in> set (takeWhile (\<lambda>j. j \<noteq> ''top_module'') (required_parameters ''synthesize_verilog'')).
         getStringProperty (Some [''verilog_code'' \<mapsto> JStr ''module m; endmodule'']) j [] \<noteq> []"
    by (simp add: required_parameters_def getStringProperty_def)
  have h4: "takeWhile (\<lambda>j. j \<noteq> ''top_module'') (required_parameters ''synthesize_verilog'')
        = [''verilog_code'']"
    by (simp add: required_parameters_def)
  have h5: "getStringProperty (Some [''verilog_code'' \<mapsto> JStr ''module m; endmodule'']) ''verilog_code'' []
        = ''module m; endmodule''"
    by (simp add: getStringProperty_def)
  show ?thesis
    using h1 h3 h4 h5 missing_required_parameter[OF h1 h2, of "fresh_server plain_os"]
    by (simp add: missing_parameter_def)
qed

text \<open>
  C10. A required parameter given as the empty string, or as a value that is not a string,
  is rejected with the same \<open>Missing required parameter\<close> error as an absent one: the
  whole call behaves as if the property had been left out, and no driver runs.
\<close>

theorem invalid_required_parameter:
  assumes "key \<in> set (required_parameters name)"
    and "props key = Some v"
    and "v = JStr [] \<or> (\<forall>t. v \<noteq> JStr t)"
  shows "validateRequiredString (Some props) key name
           = Inl (McpError InvalidParams (missing_parameter key name))
       \<and> validateRequiredString (Some props) key name
           = validateRequiredString (Some (props(key := None))) key name
       \<and> call_tool name (Some props) s = call_tool name (Some (props(key := None))) s
       \<and> (\<exists>k. k \<in> set (required_parameters name)
              \<and> call_tool name (Some props) s
                  = (Inl (McpError InvalidParams (missing_parameter k name)), s))"
proof -
  have inv: "getStringProperty (Some props) key [] = []"
    using assms(2,3) by (cases v) (auto simp: getStringProperty_def)
  have inv': "getStringProperty (Some (props(key := None))) key [] = []"
    by (simp add: getStringProperty_def)
  have same: "(getStringProperty (Some props) k [] = []) = (getStringProperty (Some (props(key := None))) k [] = [])" for k
    using inv inv' by (cases "k = key") (simp_all add: getStringProperty_def)
  obtain k where k: "find (\<lambda>k. getStringProperty (Some props) k [] = []) (required_parameters name) = Some k"
     and kin: "k \<in> set (required_parameters name)"
    using find_invalid_exists[of key _ "\<lambda>k. getStringProperty (Some props) k [] = []", OF assms(1) inv]
    by blast
  have k': "find (\<lambda>k. getStringProperty (Some (props(key := None))) k [] = []) (required_parameters name) = Some k"
    using k same by simp
  show ?thesis
    using call_tool_invalid[OF k] call_tool_invalid[OF k'] kin inv inv'
    by (auto simp: validateRequiredString_def)
qed

theorem invalid_required_parameter_witness:
  "''project_id'' \<in> set (required_parameters ''view_waveform'')
   \<and> [''project_id'' \<mapsto> JNum (Finite 42)] ''project_id'' = Some (JNum (Finite 42))
   \<and> (\<forall>t. JNum (Finite 42) \<noteq> JStr t)
   \<and> call_tool ''view_waveform'' (Some [''project_id'' \<mapsto> JNum (Finite 42)]) (fresh_server plain_os)
      = call_tool ''view_waveform'' (Some Map.empty) (fresh_server plain_os)
   \<and> validateRequiredString (Some [''project_id'' \<mapsto> JStr []]) ''project_id'' ''view_waveform''
      = Inl (McpError InvalidParams (missing_parameter ''project_id'' ''view_waveform''))"
proof -
  have h1: "''project_id'' \<in> set (required_parameters ''view_waveform'')"
    by (simp add: required_parameters_def)
  have h2: "[''project_id'' \<mapsto> JNum (Finite 42)] ''project_id'' = Some (JNum (Finite 42))" by simp
  have h3: "JNum (Finite 42) = JStr [] \<or> (\<forall>t. JNum (Finite 42) \<noteq> JStr t)" by simp
  have g2: "[''project_id'' \<mapsto> JStr []] ''project_id'' = Some (JStr [])" by simp
  have g3: "JStr [] = JStr [] \<or> (\<forall>t. JStr [] \<noteq> JStr t)" by simp
  show ?thesis
    using h1 h2 h3
      invalid_required_parameter[where key = "''project_id''" and name = "''view_waveform''"
        and props = "[''project_id'' \<mapsto> JNum (Finite 42)]" and v = "JNum (Finite 42)"
        and s = "fresh_server plain_os", OF h1 h2 h3]
      invalid_required_parameter[where key = "''project_id''" and name = "''view_waveform''"
        and props = "[''project_id'' \<mapsto> JStr []]" and v = "JStr []"
        and s = "fresh_server plain_os", OF h1 g2 g3]
    by simp
qed

section \<open>Registry-free computations\<close>

lemma drawn_tokens_append [simp]: "drawn_tokens (a @ b) = drawn_tokens a @ drawn_tokens b"
  by (simp add: drawn_tokens_def map_filter_def)

lemma drawn_tokens_simps [simp]:
  "drawn_tokens [] = []" "drawn_tokens (Random_token t # h) = t # drawn_tokens h"
  "drawn_tokens (Mkdir p # h) = drawn_tokens h" "drawn_tokens (WriteFile p c # h) = drawn_tokens h"
  "drawn_tokens (ReadFile p # h) = drawn_tokens h" "drawn_tokens (Access p # h) = drawn_tokens h"
  "drawn_tokens (Readdir p # h) = drawn_tokens h" "drawn_tokens (Exec cmd opts # h) = drawn_tokens h"
  "drawn_tokens (Spawn cmd as opts # h) = drawn_tokens h" "drawn_tokens (SetTimeout n # h) = drawn_tokens h"
  "drawn_tokens (ClearTimeout # h) = drawn_tokens h" "drawn_tokens (Kill sig # h) = drawn_tokens h"
  "drawn_tokens (Console_error msg # h) = drawn_tokens h"
  by (simp_all add: drawn_tokens_def map_filter_simps)

lemma registry_freeI:
  assumes "\<And>s. \<exists>r h. drawn_tokens h = [] \<and>
        (\<forall>X. m (s\<lparr>projects := X\<rparr>) = (r, s\<lparr>history := history s @ h, projects := X\<rparr>))"
  shows "registry_free m"
  using assms by (simp add: registry_free_def)

lemma registry_freeD:
  assumes "registry_free m"
  obtains r h where "drawn_tokens h = []"
    and "\<And>X. m (s\<lparr>projects := X\<rparr>) = (r, s\<lparr>history := history s @ h, projects := X\<rparr>)"
  using assms unfolding registry_free_def by blast

lemma rf_ret: "registry_free (ret a)"
  by (rule registry_freeI, rule exI[of _ "Inr a"], rule exI[of _ "[]"]) (simp add: ret_def)

lemma rf_throw: "registry_free (throw e)"
  by (rule registry_freeI, rule exI[of _ "Inl e"], rule exI[of _ "[]"]) (simp add: throw_def)

lemma rf_reads_tempDir: "registry_free (reads tempDir)"
  by (rule registry_freeI, rule exI[of _ "Inr (tempDir s)" for s], rule exI[of _ "[]"]) (simp add: reads_def)

lemma rf_reads_openlaneDir: "registry_free (reads openlaneDir)"
  by (rule registry_freeI, rule exI[of _ "Inr (openlaneDir s)" for s], rule exI[of _ "[]"]) (simp add: reads_def)

lemma rf_fs_mkdir: "registry_free (fs_mkdir p)"
  by (rule registry_freeI, rule exI[of _ "of_option (mkdir_result (os s) (history s) p)" for s],
      rule exI[of _ "[Mkdir p]"]) (simp add: fs_mkdir_def record_action_def)

lemma rf_fs_writeFile: "registry_free (fs_writeFile p c)"
  by (rule registry_freeI, rule exI[of _ "of_option (writeFile_result (os s) (history s) p c)" for s],
      rule exI[of _ "[WriteFile p c]"]) (simp add: fs_writeFile_def record_action_def)

lemma rf_fs_readFile: "registry_free (fs_readFile p)"
  by (rule registry_freeI, rule exI[of _ "readFile_result (os s) (history s) p" for s],
      rule exI[of _ "[ReadFile p]"]) (simp add: fs_readFile_def record_action_def)

lemma rf_fs_access: "registry_free (fs_access p)"
  by (rule registry_freeI, rule exI[of _ "of_option (access_result (os s) (history s) p)" for s],
      rule exI[of _ "[Access p]"]) (simp add: fs_access_def record_action_def)

lemma rf_fs_readdir: "registry_free (fs_readdir p)"
  by (rule registry_freeI, rule exI[of _ "readdir_result (os s) (history s) p" for s],
      rule exI[of _ "[Readdir p]"]) (simp add: fs_readdir_def record_action_def)

lemma rf_console_error: "registry_free (console_error msg)"
  by (rule registry_freeI, rule exI[of _ "Inr ()"],
      rule exI[of _ "[Console_error msg]"]) (simp add: console_error_def record_action_def)

lemma rf_execAsync: "registry_free (execAsync command options)"
  by (rule registry_freeI,
      rule exI[of _ "promisified (exec_callback command (exec_result (os s) (history s) command options))" for s],
      rule exI[of _ "[Exec command options]"]) (simp add: execAsync_def record_action_def)

lemma exec_step_tokens:
  "drawn_tokens (effects (exec_step c t r e)) = drawn_tokens (effects r)"
  by (cases e) (auto simp: Let_def split: prod.splits option.splits)

lemma exec_run_tokens:
  "drawn_tokens (effects (foldl (exec_step c t) r es)) = drawn_tokens (effects r)"
  by (induction es arbitrary: r) (simp_all add: exec_step_tokens)

lemma rf_execAsyncWithTimeout: "registry_free (execAsyncWithTimeout command options timeoutMs)"
proof (rule registry_freeI)
  fix s :: state
  obtain e es where ev: "timed_exec_result (os s) (history s) command (execOptions options) timeoutMs = (e, es)"
    by (cases "timed_exec_result (os s) (history s) command (execOptions options) timeoutMs")
  let ?r = "execAsyncWithTimeout_run command options timeoutMs (e # es)"
  have "drawn_tokens (effects ?r) = []"
    unfolding execAsyncWithTimeout_run_def by (simp add: exec_run_tokens exec_step_tokens)
  moreover have "\<forall>X. execAsyncWithTimeout command options timeoutMs (s\<lparr>projects := X\<rparr>)
      = ((case promise ?r of Resolved v \<Rightarrow> Inr v | Rejected error \<Rightarrow> Inl error
            | Pending \<Rightarrow> Inl (Error ''pending'')),
         s\<lparr>history := history s @ effects ?r, projects := X\<rparr>)"
    using ev by (simp add: execAsyncWithTimeout_def Let_def)
  ultimately show "\<exists>r h. drawn_tokens h = [] \<and>
        (\<forall>X. execAsyncWithTimeout command options timeoutMs (s\<lparr>projects := X\<rparr>)
              = (r, s\<lparr>history := history s @ h, projects := X\<rparr>))"
    by blast
qed

lemma rf_await:
  assumes "registry_free m" and "\<And>a. registry_free (f a)"
  shows "registry_free (await m f)"
proof (rule registry_freeI)
  fix s
  from registry_freeD[OF assms(1), of s] obtain r h where h: "drawn_tokens h = []"
    and m: "\<And>X. m (s\<lparr>projects := X\<rparr>) = (r, s\<lparr>history := history s @ h, projects := X\<rparr>)"
    by blast
  show "\<exists>r h. drawn_tokens h = [] \<and>
        (\<forall>X. await m f (s\<lparr>projects := X\<rparr>) = (r, s\<lparr>history := history s @ h, projects := X\<rparr>))"
  proof (cases r)
    case (Inl e)
    then show ?thesis using h m by (intro exI[of _ "Inl e"] exI[of _ h]) (simp add: await_def)
  next
    case (Inr a)
    have "\<exists>r2 h2. drawn_tokens h2 = [] \<and>
        (\<forall>X. f a (s\<lparr>history := history s @ h, projects := X\<rparr>)
              = (r2, s\<lparr>history := history s @ h @ h2, projects := X\<rparr>))"
      using assms(2)[of a, unfolded registry_free_def, THEN spec, of "s\<lparr>history := history s @ h\<rparr>"]
      by simp
    then obtain r2 h2 where h2: "drawn_tokens h2 = []"
      and f: "\<And>X. f a (s\<lparr>history := history s @ h, projects := X\<rparr>)
                 = (r2, s\<lparr>history := history s @ h @ h2, projects := X\<rparr>)"
      by blast
    show ?thesis
      using Inr h h2 m f by (intro exI[of _ r2] exI[of _ "h @ h2"]) (simp add: await_def)
  qed
qed

lemma rf_try_catch:
  assumes "registry_free m" and "\<And>e. registry_free (handler e)"
  shows "registry_free (try_catch m handler)"
proof (rule registry_freeI)
  fix s
  from registry_freeD[OF assms(1), of s] obtain r h where h: "drawn_tokens h = []"
    and m: "\<And>X. m (s\<lparr>projects := X\<rparr>) = (r, s\<lparr>history := history s @ h, projects := X\<rparr>)"
    by blast
  show "\<exists>r h. drawn_tokens h = [] \<and>
        (\<forall>X. try_catch m handler (s\<lparr>projects := X\<rparr>) = (r, s\<lparr>history := history s @ h, projects := X\<rparr>))"
  proof (cases r)
    case (Inr a)
    then show ?thesis using h m by (intro exI[of _ "Inr a"] exI[of _ h]) (simp add: try_catch_def)
  next
    case (Inl e)
    have "\<exists>r2 h2. drawn_tokens h2 = [] \<and>
        (\<forall>X. handler e (s\<lparr>history := history s @ h, projects := X\<rparr>)
              = (r2, s\<lparr>history := history s @ h @ h2, projects := X\<rparr>))"
      using assms(2)[of e, unfolded registry_free_def, THEN spec, of "s\<lparr>history := history s @ h\<rparr>"]
      by simp
    then obtain r2 h2 where h2: "drawn_tokens h2 = []"
      and f: "\<And>X. handler e (s\<lparr>history := history s @ h, projects := X\<rparr>)
                 = (r2, s\<lparr>history := history s @ h @ h2, projects := X\<rparr>)"
      by blast
    show ?thesis
      using Inl h h2 m f by (intro exI[of _ r2] exI[of _ "h @ h2"]) (simp add: try_catch_def)
  qed
qed

lemma rf_if: "registry_free a \<Longrightarrow> registry_free b \<Longrightarrow> registry_free (if c then a else b)"
  by simp

lemma rf_case_prod: "(\<And>a b. registry_free (f a b)) \<Longrightarrow> registry_free (case_prod f x)"
  by (cases x) simp

lemma rf_case_option:
  "registry_free a \<Longrightarrow> (\<And>y. registry_free (b y)) \<Longrightarrow> registry_free (case_option a b x)"
  by (cases x) simp_all

lemma rf_case_sum:
  "(\<And>y. registry_free (a y)) \<Longrightarrow> (\<And>y. registry_free (b y)) \<Longrightarrow> registry_free (case_sum a b x)"
  by (cases x) simp_all

lemmas rf_intros = rf_ret rf_throw rf_reads_tempDir rf_reads_openlaneDir rf_fs_mkdir rf_fs_writeFile
  rf_fs_readFile rf_fs_access rf_fs_readdir rf_console_error rf_execAsync rf_execAsyncWithTimeout
  rf_await rf_try_catch rf_if rf_case_prod rf_case_option rf_case_sum

lemma rf_commandExists: "registry_free (commandExists command)"
  unfolding commandExists_def by (intro rf_intros)

lemma rf_find_python: "registry_free (find_python candidates pythonCmd)"
  by (induction candidates) (auto intro!: rf_intros rf_commandExists)

lemma rf_readFile: "registry_free (readFile p)"
  unfolding readFile_def by (intro rf_intros)

lemma rf_scan_timing: "registry_free (scan_timing routingDir files)"
  by (induction files) (auto intro!: rf_intros rf_readFile)

lemma rf_find_gds: "registry_free (find_gds runsDir)"
  unfolding find_gds_def Let_def by (intro rf_intros)

lemma rf_launch_klayout: "registry_free (launch_klayout openInKlayout gdsFile)"
  unfolding launch_klayout_def Let_def by (intro rf_intros rf_commandExists)

lemma rf_openlane_flow:
  "registry_free (openlane_flow verilogCode designName clockPort clockPeriod openInKlayout projectId projectDir)"
  unfolding openlane_flow_def Let_def
  by (intro rf_intros rf_find_python rf_find_gds rf_launch_klayout)

lemma registry_free_independent:
  assumes "registry_free m"
  shows "fst (m (s\<lparr>projects := X\<rparr>)) = fst (m s)"
proof -
  from registry_freeD[OF assms, of s] obtain r h
    where m: "\<And>X. m (s\<lparr>projects := X\<rparr>) = (r, s\<lparr>history := history s @ h, projects := X\<rparr>)"
    by blast
  have "s\<lparr>projects := projects s\<rparr> = s" by simp
  with m[of "projects s"] m[of X] show ?thesis by simp
qed

lemma registry_free_frame:
  assumes "registry_free m" and "m s = (r, s')"
  shows "projects s' = projects s \<and> os s' = os s \<and> tempDir s' = tempDir s
         \<and> openlaneDir s' = openlaneDir s
         \<and> (\<exists>h. history s' = history s @ h \<and> drawn_tokens h = [])"
proof -
  from registry_freeD[OF assms(1), of s] obtain r0 h where h: "drawn_tokens h = []"
    and m: "\<And>X. m (s\<lparr>projects := X\<rparr>) = (r0, s\<lparr>history := history s @ h, projects := X\<rparr>)"
    by blast
  have "s\<lparr>projects := projects s\<rparr> = s" by simp
  with m[of "projects s"] assms(2) have "s' = s\<lparr>history := history s @ h, projects := projects s\<rparr>"
    by simp
  then show ?thesis using h by simp
qed

text \<open>Drivers that start by looking the project up.\<close>

lemma lookup_then:
  "try_catch (await (projects_get k) F) H s = try_catch (F (projects s k)) H s"
  by (simp add: try_catch_def await_def projects_get_def reads_def)

section \<open>Results of computations\<close>

lemma succeeds_ret: "P a \<Longrightarrow> succeeds (ret a) P"
  by (simp add: succeeds_def ret_def)

lemma succeeds_await:
  assumes "succeeds m (\<lambda>_. True)" and "\<And>a. succeeds (f a) P"
  shows "succeeds (await m f) P"
  unfolding succeeds_def
proof
  fix s
  from assms(1) obtain a s' where "m s = (Inr a, s')" unfolding succeeds_def by blast
  moreover from assms(2)[of a] obtain b s'' where "f a s' = (Inr b, s'')" "P b"
    unfolding succeeds_def by blast
  ultimately show "\<exists>a s'. await m f s = (Inr a, s') \<and> P a" by (simp add: await_def)
qed

lemma succeeds_try_catch:
  assumes "returns m P" and "\<And>e. succeeds (handler e) P"
  shows "succeeds (try_catch m handler) P"
  unfolding succeeds_def
proof
  fix s
  obtain r s' where m: "m s = (r, s')" by (cases "m s")
  show "\<exists>a s'. try_catch m handler s = (Inr a, s') \<and> P a"
  proof (cases r)
    case (Inr a)
    with m assms(1) show ?thesis by (auto simp: returns_def try_catch_def)
  next
    case (Inl e)
    from assms(2)[of e] obtain b s'' where "handler e s' = (Inr b, s'')" "P b"
      unfolding succeeds_def by blast
    with m Inl show ?thesis by (simp add: try_catch_def)
  qed
qed

lemma returns_True: "returns m (\<lambda>_. True)"
  by (simp add: returns_def)

lemma returns_ret: "P a \<Longrightarrow> returns (ret a) P"
  by (simp add: returns_def ret_def)

lemma returns_await:
  assumes "\<And>a. returns (f a) P"
  shows "returns (await m f) P"
  using assms unfolding returns_def await_def
  by (auto split: prod.splits sum.splits)

lemma returns_try_catch:
  assumes "returns m P" and "\<And>e. returns (handler e) P"
  shows "returns (try_catch m handler) P"
  using assms unfolding returns_def try_catch_def
  by (auto split: prod.splits sum.splits)

lemma succeeds_readFile: "succeeds (readFile p) (\<lambda>_. True)"
  unfolding readFile_def by (intro succeeds_try_catch succeeds_ret returns_True) simp

lemma try_catch_independent:
  assumes "registry_free M" and "\<And>e. registry_free (H e)"
  shows "fst (try_catch M H (s\<lparr>projects := X\<rparr>)) = fst (try_catch M H (s\<lparr>projects := Y\<rparr>))"
proof -
  have "fst (try_catch M H (s\<lparr>projects := Z\<rparr>)) = fst (try_catch M H s)" for Z
    by (rule registry_free_independent[OF rf_try_catch[OF assms]])
  then show ?thesis by simp
qed

section \<open>Drivers on registered workspaces\<close>

text \<open>
  C3. A view-waveform, view-layout or report-read call whose identifier is not registered
  returns the envelope \<open>{success: false, error: ...}\<close> whose message names the identifier
  as not found, and leaves the state as it was: nothing is added to the history, so no
  directory is accessed.
\<close>

theorem unknown_workspace:
  assumes "projects s projectId = None"
  shows "viewWaveform projectId vcdFile s
           = (Inr (JObj [(''success'', JBool False),
                         (''error'', JStr (''Project '' @ projectId @ '' not found. Run a simulation first.''))]), s)
       \<and> viewGds projectId gdsFile s
           = (Inr (JObj [(''success'', JBool False),
                         (''error'', JStr (''Project '' @ projectId @ '' not found.''))]), s)
       \<and> readOpenlaneReports projectId reportType s
           = (Inr (JObj [(''success'', JBool False),
                         (''error'', JStr (''Project '' @ projectId @ '' not found.''))]), s)
       \<and> sublist projectId (''Project '' @ projectId @ '' not found. Run a simulation first.'')
       \<and> sublist projectId (''Project '' @ projectId @ '' not found.'')"
proof -
  have names: "sublist projectId (''Project '' @ projectId @ '' not found. Run a simulation first.'')"
    "sublist projectId (''Project '' @ projectId @ '' not found.'')"
    by (rule sublist_appendI)+
  have "viewWaveform projectId vcdFile s
           = (Inr (JObj [(''success'', JBool False),
                         (''error'', JStr (''Project '' @ projectId @ '' not found. Run a simulation first.''))]), s)"
    unfolding viewWaveform_def lookup_then assms by (simp add: try_catch_def ret_def failure_def)
  moreover have "viewGds projectId gdsFile s
           = (Inr (JObj [(''success'', JBool False),
                         (''error'', JStr (''Project '' @ projectId @ '' not found.''))]), s)"
    unfolding viewGds_def lookup_then assms by (simp add: try_catch_def ret_def failure_def)
  moreover have "readOpenlaneReports projectId reportType s
           = (Inr (JObj [(''success'', JBool False),
                         (''error'', JStr (''Project '' @ projectId @ '' not found.''))]), s)"
    unfolding readOpenlaneReports_def lookup_then assms by (simp add: try_catch_def ret_def failure_def)
  ultimately show ?thesis using names by blast
qed

theorem unknown_workspace_witness:
  "projects (fresh_server plain_os) ''zz9'' = None
   \<and> readOpenlaneReports ''zz9'' [] (fresh_server plain_os)
        = (Inr (JObj [(''success'', JBool False), (''error'', JStr ''Project zz9 not found.'')]),
           fresh_server plain_os)
   \<and> history (snd (viewGds ''zz9'' [] (fresh_server plain_os))) = []"
proof -
  have h: "projects (fresh_server plain_os) ''zz9'' = None" by (simp add: fresh_server_def)
  have e: "history (fresh_server plain_os) = []" by (simp add: fresh_server_def)
  show ?thesis
    using h e unknown_workspace[OF h, of "[]" "[]" "[]"] by simp
qed

text \<open>
  C7. For a registered workspace the report reader answers \<open>No runs directory found. Run
  OpenLane flow first.\<close> when listing \<open>runs\<close> fails (the directory does not exist), and
  \<open>No OpenLane runs found. Run OpenLane flow first.\<close> when the listing is empty; both are
  \<open>{success: false}\<close> envelopes and the two messages differ.
\<close>

theorem report_read_no_runs:
  assumes "projects s projectId = Some p"
  shows "(\<forall>e. readdir_result (os s) (history s) (join [dir p, ''runs'']) = Inl e \<longrightarrow>
            fst (readOpenlaneReports projectId reportType s)
              = Inr (JObj [(''success'', JBool False),
                           (''error'', JStr ''No runs directory found. Run OpenLane flow first.'')]))
       \<and> (readdir_result (os s) (history s) (join [dir p, ''runs'']) = Inr [] \<longrightarrow>
            fst (readOpenlaneReports projectId reportType s)
              = Inr (JObj [(''success'', JBool False),
                           (''error'', JStr ''No OpenLane runs found. Run OpenLane flow first.'')]))
       \<and> ''No runs directory found. Run OpenLane flow first.''
           \<noteq> ''No OpenLane runs found. Run OpenLane flow first.''"
  unfolding readOpenlaneReports_def lookup_then assms
  by (simp add: try_catch_def await_def fs_readdir_def ret_def failure_def Let_def)

theorem report_read_no_runs_witness:
  "projects (flow_server plain_os) ''k3x9''
     = Some \<lparr>dir = ''/home/u/openlane-projects/counter_k3x9'', type = ''openlane''\<rparr>
   \<and> fst (readOpenlaneReports ''k3x9'' [] (flow_server plain_os))
       = Inr (JObj [(''success'', JBool False),
                    (''error'', JStr ''No runs directory found. Run OpenLane flow first.'')])
   \<and> fst (readOpenlaneReports ''k3x9'' [] (flow_server empty_runs_os))
       = Inr (JObj [(''success'', JBool False),
                    (''error'', JStr ''No OpenLane runs found. Run OpenLane flow first.'')])"
proof -
  have p1: "projects (flow_server plain_os) ''k3x9''
     = Some \<lparr>dir = ''/home/u/openlane-projects/counter_k3x9'', type = ''openlane''\<rparr>"
    by (simp add: flow_server_def fresh_server_def)
  have p2: "projects (flow_server empty_runs_os) ''k3x9''
     = Some \<lparr>dir = ''/home/u/openlane-projects/counter_k3x9'', type = ''openlane''\<rparr>"
    by (simp add: flow_server_def fresh_server_def)
  have r1: "readdir_result (os (flow_server plain_os)) (history (flow_server plain_os)) p
             = Inl (Error ''ENOENT: no such file or directory'')" for p
    by (simp add: flow_server_def fresh_server_def plain_os_def)
  have r2: "readdir_result (os (flow_server empty_runs_os)) (history (flow_server empty_runs_os)) p
             = Inr []" for p
    by (simp add: flow_server_def fresh_server_def plain_os_def empty_runs_os_def)
  show ?thesis
    using p1 r1 r2 report_read_no_runs[OF p1, of "[]"] report_read_no_runs[OF p2, of "[]"]
    by simp
qed

text \<open>
  C8, as stated, fails: the report reader answers a simulation workspace whose directory
  holds a \<open>runs\<close> entry with a successful summary.
\<close>

theorem report_read_kind_counterexample:
  "type (the (projects (simulation_server one_run_os) ''k3x9'')) = ''simulation''
   \<and> ''simulation'' \<noteq> ''openlane''
   \<and> fst (readOpenlaneReports ''k3x9'' [] (simulation_server one_run_os))
       = Inr (report_results ''k3x9'' ''RUN_1'' None None None)
   \<and> field (report_results ''k3x9'' ''RUN_1'' None None None) ''success'' = Some (JBool True)"
  by code_simp

text \<open>
  C8, amended. The report reader requires a registered workspace but does not consult its
  kind: the response for a record of any kind is the response for a physical-design-flow
  record with the same directory; and whenever \<open>runs\<close> lists at least one entry the response
  is a successful summary of the latest run.
\<close>

theorem report_read_any_kind:
  "fst (readOpenlaneReports projectId reportType
          (s\<lparr>projects := (projects s)(projectId \<mapsto> \<lparr>dir = d, type = kind\<rparr>)\<rparr>))
     = fst (readOpenlaneReports projectId reportType
          (s\<lparr>projects := (projects s)(projectId \<mapsto> \<lparr>dir = d, type = ''openlane''\<rparr>)\<rparr>))
   \<and> (projects s projectId = Some p
        \<and> readdir_result (os s) (history s) (join [dir p, ''runs'']) = Inr (run # runs)
       \<longrightarrow> (\<exists>synthReport timingReport finalSummary.
             fst (readOpenlaneReports projectId reportType s)
               = Inr (report_results projectId (latest (run # runs)) synthReport timingReport finalSummary)
             \<and> field (report_results projectId (latest (run # runs)) synthReport timingReport finalSummary)
                  ''success'' = Some (JBool True)))"
proof
  show "fst (readOpenlaneReports projectId reportType
          (s\<lparr>projects := (projects s)(projectId \<mapsto> \<lparr>dir = d, type = kind\<rparr>)\<rparr>))
     = fst (readOpenlaneReports projectId reportType
          (s\<lparr>projects := (projects s)(projectId \<mapsto> \<lparr>dir = d, type = ''openlane''\<rparr>)\<rparr>))"
    unfolding readOpenlaneReports_def lookup_then
    apply (simp add: Let_def)
    apply (rule try_catch_independent)
     apply (intro rf_intros rf_readFile rf_scan_timing)+
    done
next
  show "projects s projectId = Some p
        \<and> readdir_result (os s) (history s) (join [dir p, ''runs'']) = Inr (run # runs)
       \<longrightarrow> (\<exists>synthReport timingReport finalSummary.
             fst (readOpenlaneReports projectId reportType s)
               = Inr (report_results projectId (latest (run # runs)) synthReport timingReport finalSummary)
             \<and> field (report_results projectId (latest (run # runs)) synthReport timingReport finalSummary)
                  ''success'' = Some (JBool True))"
  proof
    assume a: "projects s projectId = Some p
        \<and> readdir_result (os s) (history s) (join [dir p, ''runs'']) = Inr (run # runs)"
    let ?P = "\<lambda>j. \<exists>synthReport timingReport finalSummary.
       j = report_results projectId (latest (run # runs)) synthReport timingReport finalSummary"
    let ?reportsDir = "join [dir p, ''runs'', latest (run # runs), ''reports'']"
    let ?finalDir = "join [dir p, ''runs'', latest (run # runs), ''final'']"
    have "succeeds
       (await (readFile (join [?reportsDir, ''synthesis'', ''1-synthesis.stat.rpt''])) (\<lambda>synthReport.
        await (try_catch
                 (await (fs_readdir (join [?reportsDir, ''routing'']))
                    (\<lambda>files. scan_timing (join [?reportsDir, ''routing'']) files))
                 (\<lambda>_. ret None)) (\<lambda>timingReport.
        await (readFile (join [?finalDir, ''final.summary.rpt''])) (\<lambda>finalSummary.
        ret (report_results projectId (latest (run # runs)) synthReport timingReport finalSummary)))))
       ?P"
      by (intro succeeds_await succeeds_readFile succeeds_try_catch succeeds_ret returns_True)
         (simp, intro exI, rule refl)
    then obtain j s' where
      "await (readFile (join [?reportsDir, ''synthesis'', ''1-synthesis.stat.rpt''])) (\<lambda>synthReport.
        await (try_catch
                 (await (fs_readdir (join [?reportsDir, ''routing'']))
                    (\<lambda>files. scan_timing (join [?reportsDir, ''routing'']) files))
                 (\<lambda>_. ret None)) (\<lambda>timingReport.
        await (readFile (join [?finalDir, ''final.summary.rpt''])) (\<lambda>finalSummary.
        ret (report_results projectId (latest (run # runs)) synthReport timingReport finalSummary))))
        (record_action (Readdir (join [dir p, ''runs''])) s) = (Inr j, s')" and "?P j"
      unfolding succeeds_def by blast
    then have "\<exists>synthReport timingReport finalSummary.
             fst (readOpenlaneReports projectId reportType s)
               = Inr (report_results projectId (latest (run # runs)) synthReport timingReport finalSummary)"
      using a
      unfolding readOpenlaneReports_def lookup_then
      by (auto simp: try_catch_def await_def[of "try_catch _ _"] await_def[of "fs_readdir _"]
          fs_readdir_def ret_def Let_def)
    then show "\<exists>synthReport timingReport finalSummary.
             fst (readOpenlaneReports projectId reportType s)
               = Inr (report_results projectId (latest (run # runs)) synthReport timingReport finalSummary)
             \<and> field (report_results projectId (latest (run # runs)) synthReport timingReport finalSummary)
                  ''success'' = Some (JBool True)"
      by (auto simp: report_results_def Let_def)
  qed
qed

theorem report_read_any_kind_witness:
  "projects (simulation_server one_run_os) ''k3x9''
     = Some \<lparr>dir = ''/tmp/eda_mcp_1/sim_project_k3x9'', type = ''simulation''\<rparr>
   \<and> readdir_result (os (simulation_server one_run_os)) (history (simulation_server one_run_os))
        (join [''/tmp/eda_mcp_1/sim_project_k3x9'', ''runs'']) = Inr [''RUN_1'']
   \<and> (\<exists>synthReport timingReport finalSummary.
         fst (readOpenlaneReports ''k3x9'' [] (simulation_server one_run_os))
           = Inr (report_results ''k3x9'' (latest [''RUN_1'']) synthReport timingReport finalSummary))"
proof -
  have p: "projects (simulation_server one_run_os) ''k3x9''
     = Some \<lparr>dir = ''/tmp/eda_mcp_1/sim_project_k3x9'', type = ''simulation''\<rparr>"
    by (simp add: simulation_server_def fresh_server_def)
  have j: "join [''/tmp/eda_mcp_1/sim_project_k3x9'', ''runs''] = ''/tmp/eda_mcp_1/sim_project_k3x9/runs''"
    by code_simp
  have r: "readdir_result (os (simulation_server one_run_os)) (history (simulation_server one_run_os))
        (join [dir \<lparr>dir = ''/tmp/eda_mcp_1/sim_project_k3x9'', type = ''simulation''\<rparr>, ''runs''])
       = Inr [''RUN_1'']"
    by (simp add: j simulation_server_def fresh_server_def one_run_os_def plain_os_def)
  show ?thesis
    using p r report_read_any_kind[of "''k3x9''" "[]" "simulation_server one_run_os"
        "''/tmp/eda_mcp_1/sim_project_k3x9''" "''simulation''"
        "\<lparr>dir = ''/tmp/eda_mcp_1/sim_project_k3x9'', type = ''simulation''\<rparr>" "''RUN_1''" "[]"]
    by auto
qed

section \<open>Synthesis and simulation\<close>

lemma error_text_command_failed [simp]:
  "error_text (command_failed command err) = ''Command failed: '' @ command @ nl @ err"
  by (simp add: error_text_def command_failed_def)

lemmas exec_defs = try_catch_def await_def random_token_def reads_def fs_mkdir_def projects_set_def
  fs_writeFile_def fs_readFile_def execAsync_def ret_def record_action_def of_option_def Let_def






lemma synthesize_success:
  assumes mk: "\<And>h p. mkdir_result (os s) h p = None"
    and wr: "\<And>h p c. writeFile_result (os s) h p c = None"
    and ex: "\<And>h c opts. exec_result (os s) h c opts = Exited 0 out err"
    and t: "t = random_result (os s) (history s)"
    and d: "d = join [tempDir s, ''project_'' @ t]"
    and h: "h = history s @
                  [Random_token t, Mkdir d,
                   WriteFile (join [d, ''design.v'']) (Text verilogCode),
                   WriteFile (join [d, ''synth.ys'']) (Text (synth_script target topModule)),
                   Exec (''yosys -s '' @ join [d, ''synth.ys''])
                     (no_options\<lparr>cwd := Some d, timeout := Some 120000\<rparr>)]"
  shows "synthesizeVerilog verilogCode topModule target s
           = (Inr (JObj [(''project_id'', JStr t),
                         (''success'', JBool True),
                         (''stdout'', JStr out),
                         (''stderr'', JStr err),
                         (''synthesized_verilog'',
                            JStr (case readFile_result (os s) h (join [d, ''synth_output.v'']) of
                                    Inr text \<Rightarrow> text
                                  | Inl _ \<Rightarrow> ''Synthesis output not generated'')),
                         (''target'', JStr target)]),
              s\<lparr>projects := (projects s)(t \<mapsto> \<lparr>dir = d, type = ''synthesis''\<rparr>),
                history := h @ [ReadFile (join [d, ''synth_output.v''])]\<rparr>)"
  unfolding synthesizeVerilog_def
  by (simp add: exec_defs mk wr ex t d h promisified_def split: sum.splits)



lemma returns_case_prod: "(\<And>a b. returns (f a b) P) \<Longrightarrow> returns (case_prod f x) P"
  by (cases x) simp





section \<open>Physical-design flow and previews\<close>


























lemma si_weaken: "succeeds_in E m P \<Longrightarrow> (\<And>a. P a \<Longrightarrow> Q a) \<Longrightarrow> succeeds_in E m Q"
  unfolding succeeds_in_def by blast









section \<open>Workspace identifiers\<close>

subsection \<open>Project directories end with their identifier\<close>

lemma is_base36_not_sep: "is_base36 c \<Longrightarrow> c \<noteq> CHR ''_'' \<and> c \<noteq> CHR ''/''"
  by (auto simp: is_base36_def)

lemma is_token_chars: "is_token t \<Longrightarrow> CHR ''_'' \<notin> set t \<and> CHR ''/'' \<notin> set t"
  using is_base36_not_sep by (auto simp: is_token_def list_all_iff)

lemma id_of_dir_suffix: "CHR ''_'' \<notin> set t \<Longrightarrow> id_of_dir (pre @ ''_'' @ t) = t"
proof -
  assume "CHR ''_'' \<notin> set t"
  then have "\<forall>x \<in> set (rev t). x \<noteq> CHR ''_''" by auto
  then have "takeWhile (\<lambda>c. c \<noteq> CHR ''_'') (rev t) = rev t"
    by (rule takeWhile_eq_all_conv[THEN iffD2])
  then have "takeWhile (\<lambda>c. c \<noteq> CHR ''_'') (rev t @ CHR ''_'' # rev pre) = rev t"
    by (simp add: takeWhile_tail)
  then show ?thesis
    by (simp add: id_of_dir_def)
qed

lemma split_path_none: "CHR ''/'' \<notin> set w \<Longrightarrow> split_path w = [w]"
  by (induction w) auto

lemma split_path_last:
  "CHR ''/'' \<notin> set w \<Longrightarrow> \<exists>segs l. split_path (u @ w) = segs @ [l @ w]"
proof (induction u)
  case Nil
  then show ?case using split_path_none[of w] by (intro exI[of _ "[]"]) simp
next
  case (Cons c u)
  then obtain segs l where sp: "split_path (u @ w) = segs @ [l @ w]" by blast
  show ?case
  proof (cases "c = CHR ''/''")
    case True
    then show ?thesis using sp by (intro exI[of _ "[] # segs"] exI[of _ l]) simp
  next
    case False
    show ?thesis
    proof (cases segs)
      case Nil
      then show ?thesis using sp False by (intro exI[of _ "[]"] exI[of _ "c # l"]) simp
    next
      case (Cons g gs)
      then show ?thesis using sp False by (intro exI[of _ "(c # g) # gs"] exI[of _ l]) simp
    qed
  qed
qed

lemma join_segments_last: "\<exists>pre. join_segments (ws @ [z]) = pre @ z"
proof (induction ws)
  case Nil
  then show ?case by simp
next
  case (Cons w ws)
  then obtain pre where "join_segments (ws @ [z]) = pre @ z" by blast
  then show ?case by (cases "ws @ [z]") (auto intro: exI[of _ "w @ ''/'' @ pre"])
qed

lemma normalizeString_keeps_last:
  assumes "CHR ''/'' \<notin> set w" and "CHR ''_'' \<in> set w"
  shows "\<exists>pre. normalizeString (u @ w) b = pre @ w"
proof -
  obtain segs l where sp: "split_path (u @ w) = segs @ [l @ w]"
    using split_path_last[OF assms(1)] by blast
  have z: "l @ w \<noteq> []" "l @ w \<noteq> ''.''" "l @ w \<noteq> ''..''"
    using assms(2) by (auto simp: append_eq_Cons_conv)
  have "foldl (normalize_step b) [] (split_path (u @ w))
          = foldl (normalize_step b) [] segs @ [l @ w]"
    using z by (simp add: sp normalize_step_def)
  moreover obtain pre where "join_segments (foldl (normalize_step b) [] segs @ [l @ w]) = pre @ l @ w"
    using join_segments_last[of "foldl (normalize_step b) [] segs" "l @ w"] by auto
  ultimately have "normalizeString (u @ w) b = (pre @ l) @ w"
    by (simp add: normalizeString_def)
  then show ?thesis by blast
qed

lemma normalize_keeps_last:
  assumes "CHR ''/'' \<notin> set w" and "CHR ''_'' \<in> set w"
  shows "\<exists>pre. normalize (u @ w) = pre @ w"
proof -
  obtain pre where q: "normalizeString (u @ w) (hd (u @ w) \<noteq> CHR ''/'') = pre @ w"
    using normalizeString_keeps_last[OF assms] by blast
  have w: "w \<noteq> []" using assms(2) by auto
  then have ne: "u @ w \<noteq> []" by simp
  have "last w \<in> set w" using w by (rule last_in_set)
  then have "last w \<noteq> CHR ''/''" using assms(1) by metis
  then have nt: "last (u @ w) \<noteq> CHR ''/''" using w by simp
  have "normalize (u @ w) = (if hd (u @ w) = CHR ''/'' then ''/'' else []) @ pre @ w"
    unfolding normalize_def Let_def using ne nt q w by simp
  then show ?thesis by (metis append.assoc)
qed

lemma join_keeps_id:
  assumes "is_token t"
  shows "\<exists>pre. join [a, b @ ''_'' @ t] = pre @ ''_'' @ t"
proof -
  have w: "CHR ''/'' \<notin> set (''_'' @ t)" "CHR ''_'' \<in> set (''_'' @ t)"
    using is_token_chars[OF assms] by simp_all
  show ?thesis
  proof (cases "a = []")
    case True
    then show ?thesis using normalize_keeps_last[OF w, of b] by (simp add: join_def)
  next
    case False
    then show ?thesis using normalize_keeps_last[OF w, of "a @ ''/'' @ b"] by (simp add: join_def)
  qed
qed

lemma id_of_dir_join:
  assumes "is_token t"
  shows "id_of_dir (join [a, b @ ''_'' @ t]) = t"
proof -
  obtain pre where "join [a, b @ ''_'' @ t] = pre @ ''_'' @ t"
    using join_keeps_id[OF assms] by blast
  then show ?thesis using id_of_dir_suffix is_token_chars[OF assms] by simp
qed

subsection \<open>What one call changes\<close>

lemma registry_free_untouched:
  "registry_free m \<Longrightarrow> m s = (r, s') \<Longrightarrow> untouched s s'"
  unfolding untouched_def by (rule registry_free_frame)

lemma returnsD: "returns m P \<Longrightarrow> m s = (Inr a, s') \<Longrightarrow> P a"
  unfolding returns_def by blast

text \<open>After the project is stored: the rest of the \<open>try\<close> block, then the \<open>catch\<close> block.\<close>

lemma stored_then:
  assumes run: "try_catch (REST :: json io) H s1 = (r, s')"
    and rest: "registry_free REST" "returns REST (\<lambda>j. field j ''project_id'' = Some (JStr t))"
    and handler: "\<And>e. registry_free (H e)" "\<And>e. returns (H e) (\<lambda>j. field j ''project_id'' = None)"
  shows "untouched s1 s'
         \<and> (\<forall>j v. r = Inr j \<longrightarrow> field j ''project_id'' = Some v \<longrightarrow> v = JStr t)"
proof -
  have u: "untouched s1 s'"
    using registry_free_untouched[OF rf_try_catch[OF rest(1) handler(1)] run] .
  have "returns (try_catch REST H) (\<lambda>j. field j ''project_id'' = Some (JStr t) \<or> field j ''project_id'' = None)"
    by (rule returns_try_catch)
       (use rest(2) handler(2) in \<open>auto simp: returns_def\<close>)
  then have "\<forall>j v. r = Inr j \<longrightarrow> field j ''project_id'' = Some v \<longrightarrow> v = JStr t"
    using run by (auto dest: returnsD)
  with u show ?thesis by blast
qed

lemma create_after_mkdir:
  assumes run: "try_catch
       (await random_token (\<lambda>t.
        await (reads tempDir) (\<lambda>d.
        await (fs_mkdir (D d t)) (\<lambda>_.
        await (projects_set t (P d t)) (\<lambda>_. REST d t))))) H s = (r, s')"
    and rest: "\<And>d t. registry_free (REST d t)"
      "\<And>d t. returns (REST d t) (\<lambda>j. field j ''project_id'' = Some (JStr t))"
    and handler: "\<And>e. registry_free (H e)" "\<And>e. returns (H e) (\<lambda>j. field j ''project_id'' = None)"
    and kind: "\<And>d t. type (P d t) = kind"
    and good: "\<And>d t. is_token t \<Longrightarrow> id_of_dir (dir (P d t)) = t"
  shows "registers kind s r s'"
proof -
  define t where "t = random_result (os s) (history s)"
  define d where "d = tempDir s"
  define s2 where "s2 = record_action (Mkdir (D d t)) (record_action (Random_token t) s)"
  show ?thesis
  proof (cases "mkdir_result (os s) (history s @ [Random_token t]) (D d t)")
    case (Some e)
    have "H e s2 = (r, s')"
      using run Some
      by (simp add: try_catch_def await_def random_token_def reads_def fs_mkdir_def of_option_def
          record_action_def Let_def t_def d_def s2_def)
    from registry_free_untouched[OF handler(1) this] returnsD[OF handler(2)] this
    have "untouched s2 s'" and "\<forall>j v. r = Inr j \<longrightarrow> field j ''project_id'' = Some v \<longrightarrow> False"
      by auto
    then show ?thesis
      unfolding registers_def untouched_def s2_def record_action_def
      using kind[of d t] good[of t d]
      by (auto intro!: exI[of _ t] exI[of _ "P d t"])
  next
    case None
    define s3 where "s3 = s2\<lparr>projects := (projects s)(t \<mapsto> P d t)\<rparr>"
    have "try_catch (REST d t) H s3 = (r, s')"
      using run None
      by (simp add: try_catch_def await_def random_token_def reads_def fs_mkdir_def of_option_def
          projects_set_def record_action_def Let_def t_def d_def s2_def s3_def)
    from stored_then[OF this rest(1) rest(2) handler]
    have "untouched s3 s'" and "\<forall>j v. r = Inr j \<longrightarrow> field j ''project_id'' = Some v \<longrightarrow> v = JStr t"
      by auto
    then show ?thesis
      unfolding registers_def untouched_def s3_def s2_def record_action_def
      using kind[of d t] good[of t d]
      by (auto intro!: exI[of _ t] exI[of _ "P d t"])
  qed
qed

lemma create_before_mkdir:
  assumes run: "try_catch
       (await random_token (\<lambda>t.
        await (reads openlaneDir) (\<lambda>d.
        await (projects_set t (P d t)) (\<lambda>_. REST d t)))) H s = (r, s')"
    and rest: "\<And>d t. registry_free (REST d t)"
      "\<And>d t. returns (REST d t) (\<lambda>j. field j ''project_id'' = Some (JStr t))"
    and handler: "\<And>e. registry_free (H e)" "\<And>e. returns (H e) (\<lambda>j. field j ''project_id'' = None)"
    and kind: "\<And>d t. type (P d t) = kind"
    and good: "\<And>d t. is_token t \<Longrightarrow> id_of_dir (dir (P d t)) = t"
  shows "registers kind s r s'"
proof -
  define t where "t = random_result (os s) (history s)"
  define d where "d = openlaneDir s"
  define s3 where "s3 = (record_action (Random_token t) s)\<lparr>projects := (projects s)(t \<mapsto> P d t)\<rparr>"
  have "try_catch (REST d t) H s3 = (r, s')"
    using run
    by (simp add: try_catch_def await_def random_token_def reads_def
        projects_set_def record_action_def Let_def t_def d_def s3_def)
  from stored_then[OF this rest(1) rest(2) handler]
  have "untouched s3 s'" and "\<forall>j v. r = Inr j \<longrightarrow> field j ''project_id'' = Some v \<longrightarrow> v = JStr t"
    by auto
  then show ?thesis
    unfolding registers_def untouched_def s3_def record_action_def
    using kind[of d t] good[of t d]
    by (auto intro!: exI[of _ t] exI[of _ "P d t"])
qed

lemma returns_if: "returns a P \<Longrightarrow> returns b P \<Longrightarrow> returns (if c then a else b) P"
  by simp

lemma project_dir_ids:
  "is_token t \<Longrightarrow> id_of_dir (join [d, ''project_'' @ t]) = t"
  "is_token t \<Longrightarrow> id_of_dir (join [d, ''sim_project_'' @ t]) = t"
  using id_of_dir_join[of t d "''project''"] id_of_dir_join[of t d "''sim_project''"] by simp_all

lemma synthesize_registers:
  assumes "synthesizeVerilog verilogCode topModule target s = (r, s')"
  shows "registers ''synthesis'' s r s'"
  using assms unfolding synthesizeVerilog_def Let_def
  apply (rule create_after_mkdir)
       apply (intro rf_intros)
      apply (intro returns_await returns_case_prod returns_ret, simp)
     apply (rule rf_ret)
    apply (rule returns_ret, simp add: failure_def)
   apply simp
  apply (unfold project.select_convs, erule project_dir_ids(1))
  done

lemma simulate_registers:
  assumes "simulateVerilog verilogCode testbenchCode s = (r, s')"
  shows "registers ''simulation'' s r s'"
  using assms unfolding simulateVerilog_def Let_def
  apply (rule create_after_mkdir)
       apply (intro rf_intros)
      apply (intro returns_await returns_case_prod returns_ret, simp)
     apply (rule rf_ret)
    apply (rule returns_ret, simp add: failure_def)
   apply simp
  apply (unfold project.select_convs, erule project_dir_ids(2))
  done

lemma openlane_registers:
  assumes "runOpenlane verilogCode designName clockPort clockPeriod openInKlayout s = (r, s')"
  shows "registers ''openlane'' s r s'"
  using assms unfolding runOpenlane_def Let_def
  apply (rule create_before_mkdir)
       apply (rule rf_openlane_flow)
      apply (unfold openlane_flow_def Let_def)
      apply (intro returns_await returns_case_prod returns_ret, simp)
     apply (intro rf_intros)
    apply (intro returns_await returns_ret, simp)
   apply simp
  apply (unfold project.select_convs, erule id_of_dir_join)
  done

lemma lookup_untouched:
  assumes "try_catch (await (projects_get k) F) H s = (r, s')"
    and "\<And>x. registry_free (F x)" and "\<And>e. registry_free (H e)"
  shows "untouched s s'"
proof -
  have "registry_free (try_catch (F (projects s k)) H)"
    by (rule rf_try_catch) (rule assms(2), rule assms(3))
  moreover have "try_catch (F (projects s k)) H s = (r, s')"
    using assms(1) unfolding lookup_then .
  ultimately show ?thesis by (rule registry_free_untouched)
qed

lemma viewWaveform_untouched:
  assumes "viewWaveform projectId vcdFile s = (r, s')"
  shows "untouched s s'"
  using assms unfolding viewWaveform_def Let_def
  apply (rule lookup_untouched)
   apply (intro rf_intros rf_commandExists)
  apply (rule rf_ret)
  done

lemma viewGds_untouched:
  assumes "viewGds projectId gdsFile s = (r, s')"
  shows "untouched s s'"
  using assms unfolding viewGds_def Let_def
  apply (rule lookup_untouched)
   apply (intro rf_intros)
  apply (rule rf_ret)
  done

lemma readOpenlaneReports_untouched:
  assumes "readOpenlaneReports projectId reportType s = (r, s')"
  shows "untouched s s'"
  using assms unfolding readOpenlaneReports_def Let_def
  apply (rule lookup_untouched)
   apply (intro rf_intros rf_readFile rf_scan_timing)
  apply (rule rf_ret)
  done

lemma invalid_effect: "call_effect c s (Inl e) s"
  by (simp add: call_effect_def created_def split: option.splits)

lemma create_effect:
  assumes "run_driver m s = (r, s')"
    and "\<And>r0. m s = (r0, s') \<Longrightarrow> registers kind s r0 s'"
    and "workspace_kind name = Some kind"
  shows "call_effect (name, args) s r s'"
proof -
  obtain r0 s0 where m: "m s = (r0, s0)" by (cases "m s")
  with assms(1) have s0: "s0 = s'" and r: "r = (case r0 of Inr j \<Rightarrow> Inr j
        | Inl e \<Rightarrow> Inl (McpError InternalError (''Tool execution failed: '' @ message e)))"
    by (auto simp: run_driver_def split: sum.splits)
  from assms(2) m s0 have reg: "registers kind s r0 s'" by simp
  then obtain t h p where frame: "os s' = os s" "tempDir s' = tempDir s" "openlaneDir s' = openlaneDir s"
    and h: "history s' = history s @ Random_token t # h" "drawn_tokens h = []"
    and p: "type p = kind" "is_token t \<longrightarrow> id_of_dir (dir p) = t"
    and upd: "projects s' = projects s \<or> projects s' = (projects s)(t \<mapsto> p)"
    and ret: "\<forall>j v. r0 = Inr j \<longrightarrow> field j ''project_id'' = Some v \<longrightarrow>
                 v = JStr t \<and> projects s' = (projects s)(t \<mapsto> p)"
    unfolding registers_def by blast
  have changed: "\<forall>k. projects s' k \<noteq> projects s k \<longrightarrow>
                k \<in> set (drawn_tokens (Random_token t # h))
                \<and> (\<exists>p. projects s' k = Some p \<and> (is_token k \<longrightarrow> id_of_dir (dir p) = k))"
    using upd h(2) p(2) by (auto split: if_splits)
  have made: "\<forall>i kind'. created (name, args) r = Some (i, kind') \<longrightarrow>
                i \<in> set (drawn_tokens (Random_token t # h))
                \<and> (\<exists>p. projects s' i = Some p \<and> type p = kind')"
    using ret r p(1) assms(3) h(2)
    by (auto simp: created_def split: sum.splits option.splits json.splits)
  show ?thesis
    unfolding call_effect_def
    using frame h changed made
    by (intro conjI exI[of _ "Random_token t # h"]) simp_all
qed

lemma view_effect:
  assumes "run_driver m s = (r, s')"
    and "\<And>r0. m s = (r0, s') \<Longrightarrow> untouched s s'"
    and "workspace_kind name = None"
  shows "call_effect (name, args) s r s'"
proof -
  obtain r0 s0 where m: "m s = (r0, s0)" by (cases "m s")
  with assms(1) have s0: "s0 = s'"
    by (auto simp: run_driver_def split: sum.splits)
  from assms(2) m s0 have "untouched s s'" by simp
  then show ?thesis
    unfolding call_effect_def untouched_def using assms(3)
    by (auto simp: created_def)
qed

lemma validated:
  assumes "(case validateRequiredString args key name of
              Inl e \<Rightarrow> (Inl e, s) | Inr v \<Rightarrow> f v) = (r, s')"
    and "\<And>v. f v = (r, s') \<Longrightarrow> call_effect c s r s'"
  shows "call_effect c s r s'"
  using assms by (cases "validateRequiredString args key name") (auto intro: invalid_effect)

lemma call_tool_effect:
  assumes "call_tool name args s = (r, s')"
  shows "call_effect (name, args) s r s'"
proof -
  consider (synth) "name = ''synthesize_verilog''" | (sim) "name = ''simulate_verilog''"
    | (wave) "name = ''view_waveform''" | (flow) "name = ''run_openlane''"
    | (gds) "name = ''view_gds''" | (rep) "name = ''read_openlane_reports''"
    | (other) "name \<noteq> ''synthesize_verilog''" "name \<noteq> ''simulate_verilog''"
        "name \<noteq> ''view_waveform''" "name \<noteq> ''run_openlane''" "name \<noteq> ''view_gds''"
        "name \<noteq> ''read_openlane_reports''"
    by blast
  then show ?thesis
  proof cases
    case synth
    have k: "workspace_kind name = Some ''synthesis''" by (simp add: synth workspace_kind_def)
    have "call_tool name args s
            = (case validateRequiredString args ''verilog_code'' name of
                 Inl e \<Rightarrow> (Inl e, s)
               | Inr verilogCode \<Rightarrow>
                   (case validateRequiredString args ''top_module'' name of
                      Inl e \<Rightarrow> (Inl e, s)
                    | Inr topModule \<Rightarrow>
                        run_driver (synthesizeVerilog verilogCode topModule
                          (getStringProperty args ''target'' ''generic'')) s))"
      by (simp add: call_tool_def synth Let_def cong: sum.case_cong)
    with assms show ?thesis
      apply (simp only:)
      apply (erule validated)
      apply (erule validated)
      apply (erule create_effect[OF _ synthesize_registers k])
      apply assumption
      done
  next
    case sim
    have k: "workspace_kind name = Some ''simulation''" by (simp add: sim workspace_kind_def)
    have "call_tool name args s
            = (case validateRequiredString args ''verilog_code'' name of
                 Inl e \<Rightarrow> (Inl e, s)
               | Inr verilogCode \<Rightarrow>
                   (case validateRequiredString args ''testbench_code'' name of
                      Inl e \<Rightarrow> (Inl e, s)
                    | Inr testbenchCode \<Rightarrow> run_driver (simulateVerilog verilogCode testbenchCode) s))"
      by (simp add: call_tool_def sim Let_def cong: sum.case_cong)
    with assms show ?thesis
      apply (simp only:)
      apply (erule validated)
      apply (erule validated)
      apply (erule create_effect[OF _ simulate_registers k])
      apply assumption
      done
  next
    case wave
    have k: "workspace_kind name = None" by (simp add: wave workspace_kind_def)
    have "call_tool name args s
            = (case validateRequiredString args ''project_id'' name of
                 Inl e \<Rightarrow> (Inl e, s)
               | Inr projectId \<Rightarrow>
                   run_driver (viewWaveform projectId (getStringProperty args ''vcd_file'' ''output.vcd'')) s)"
      by (simp add: call_tool_def wave Let_def cong: sum.case_cong)
    with assms show ?thesis
      apply (simp only:)
      apply (erule validated)
      apply (erule view_effect[OF _ viewWaveform_untouched k])
      apply assumption
      done
  next
    case flow
    have k: "workspace_kind name = Some ''openlane''" by (simp add: flow workspace_kind_def)
    have "call_tool name args s
            = (case validateRequiredString args ''verilog_code'' name of
                 Inl e \<Rightarrow> (Inl e, s)
               | Inr verilogCode \<Rightarrow>
                   (case validateRequiredString args ''design_name'' name of
                      Inl e \<Rightarrow> (Inl e, s)
                    | Inr designName \<Rightarrow>
                        run_driver (runOpenlane verilogCode designName
                          (getStringProperty args ''clock_port'' ''clk'')
                          (getNumberProperty args ''clock_period'' (Finite 10))
                          (case args of None \<Rightarrow> False
                           | Some props \<Rightarrow> props ''open_in_klayout'' \<noteq> Some (JBool False))) s))"
      by (simp add: call_tool_def flow Let_def cong: sum.case_cong)
    with assms show ?thesis
      apply (simp only:)
      apply (erule validated)
      apply (erule validated)
      apply (erule create_effect[OF _ openlane_registers k])
      apply assumption
      done
  next
    case gds
    have k: "workspace_kind name = None" by (simp add: gds workspace_kind_def)
    have "call_tool name args s
            = (case validateRequiredString args ''project_id'' name of
                 Inl e \<Rightarrow> (Inl e, s)
               | Inr projectId \<Rightarrow>
                   run_driver (viewGds projectId (getStringProperty args ''gds_file'' [])) s)"
      by (simp add: call_tool_def gds Let_def cong: sum.case_cong)
    with assms show ?thesis
      apply (simp only:)
      apply (erule validated)
      apply (erule view_effect[OF _ viewGds_untouched k])
      apply assumption
      done
  next
    case rep
    have k: "workspace_kind name = None" by (simp add: rep workspace_kind_def)
    have "call_tool name args s
            = (case validateRequiredString args ''project_id'' name of
                 Inl e \<Rightarrow> (Inl e, s)
               | Inr projectId \<Rightarrow>
                   run_driver (readOpenlaneReports projectId (getStringProperty args ''report_type'' [])) s)"
      by (simp add: call_tool_def rep Let_def cong: sum.case_cong)
    with assms show ?thesis
      apply (simp only:)
      apply (erule validated)
      apply (erule view_effect[OF _ readOpenlaneReports_untouched k])
      apply assumption
      done
  next
    case other
    with assms have "r = Inl (McpError MethodNotFound (''Tool not found: '' @ name))" "s' = s"
      by (simp_all add: call_tool_def)
    then show ?thesis by (simp add: invalid_effect)
  qed
qed

subsection \<open>What a run changes\<close>

lemma returned_Nil [simp]: "returned [] rs = []" "returned calls [] = []"
  by (simp_all add: returned_def map_filter_simps)

lemma returned_Cons [simp]:
  "returned (c # calls) (r # rs)
     = (case created c r of None \<Rightarrow> returned calls rs | Some x \<Rightarrow> x # returned calls rs)"
  by (simp add: returned_def map_filter_simps split: option.splits)

lemma subseq_distinct: "subseq xs ys \<Longrightarrow> distinct ys \<Longrightarrow> distinct xs"
proof (induction rule: list_emb.induct)
  case (list_emb_Cons2 x y xs ys)
  then have "set xs \<subseteq> set ys" by (auto dest: list_emb_set)
  with list_emb_Cons2 show ?case by auto
qed auto

lemma serve_effect:
  assumes "serve calls s = (rs, s')"
  shows "\<exists>h. history s' = history s @ h
        \<and> subseq (map fst (returned calls rs)) (drawn_tokens h)
        \<and> (\<forall>k. projects s' k \<noteq> projects s k \<longrightarrow>
              k \<in> set (drawn_tokens h)
              \<and> (\<exists>p. projects s' k = Some p \<and> (is_token k \<longrightarrow> id_of_dir (dir p) = k)))
        \<and> (distinct (drawn_tokens h) \<longrightarrow>
              (\<forall>(i, kind) \<in> set (returned calls rs). \<exists>p. projects s' i = Some p \<and> type p = kind))"
  using assms
proof (induction calls arbitrary: s rs s')
  case Nil
  then show ?case by (intro exI[of _ "[]"]) simp
next
  case (Cons c calls)
  obtain name args where c: "c = (name, args)" by (cases c)
  obtain r s1 where step: "call_tool name args s = (r, s1)" by (cases "call_tool name args s")
  obtain rs1 s2 where rest: "serve calls s1 = (rs1, s2)" by (cases "serve calls s1")
  from Cons.prems c step rest have rs: "rs = r # rs1" and s': "s' = s2" by simp_all
  from call_tool_effect[OF step] obtain h1 where
    h1: "history s1 = history s @ h1" "length (drawn_tokens h1) \<le> 1"
    and ch1: "\<forall>k. projects s1 k \<noteq> projects s k \<longrightarrow>
                k \<in> set (drawn_tokens h1)
                \<and> (\<exists>p. projects s1 k = Some p \<and> (is_token k \<longrightarrow> id_of_dir (dir p) = k))"
    and cr1: "\<forall>i kind. created (name, args) r = Some (i, kind) \<longrightarrow>
                i \<in> set (drawn_tokens h1) \<and> (\<exists>p. projects s1 i = Some p \<and> type p = kind)"
    unfolding call_effect_def by blast
  from Cons.IH[OF rest] obtain h2 where
    h2: "history s2 = history s1 @ h2"
    and sub2: "subseq (map fst (returned calls rs1)) (drawn_tokens h2)"
    and ch2: "\<forall>k. projects s2 k \<noteq> projects s1 k \<longrightarrow>
              k \<in> set (drawn_tokens h2)
              \<and> (\<exists>p. projects s2 k = Some p \<and> (is_token k \<longrightarrow> id_of_dir (dir p) = k))"
    and res2: "distinct (drawn_tokens h2) \<longrightarrow>
              (\<forall>(i, kind) \<in> set (returned calls rs1). \<exists>p. projects s2 i = Some p \<and> type p = kind)"
    by blast
  have hist: "history s' = history s @ (h1 @ h2)" using h1(1) h2 s' by simp
  have sub: "subseq (map fst (returned (c # calls) rs)) (drawn_tokens (h1 @ h2))"
  proof (cases "created (name, args) r")
    case None
    then show ?thesis using sub2 c rs by (simp add: subseq_drop_many)
  next
    case (Some x)
    obtain i kind where x: "x = (i, kind)" by (cases x)
    with Some cr1 have "i \<in> set (drawn_tokens h1)" by blast
    with h1(2) have "drawn_tokens h1 = [i]"
      by (cases "drawn_tokens h1") auto
    then show ?thesis using sub2 c rs Some x by simp
  qed
  have ch: "\<forall>k. projects s' k \<noteq> projects s k \<longrightarrow>
              k \<in> set (drawn_tokens (h1 @ h2))
              \<and> (\<exists>p. projects s' k = Some p \<and> (is_token k \<longrightarrow> id_of_dir (dir p) = k))"
  proof (intro allI impI)
    fix k assume d: "projects s' k \<noteq> projects s k"
    show "k \<in> set (drawn_tokens (h1 @ h2))
          \<and> (\<exists>p. projects s' k = Some p \<and> (is_token k \<longrightarrow> id_of_dir (dir p) = k))"
    proof (cases "projects s2 k = projects s1 k")
      case True
      with d s' have "projects s1 k \<noteq> projects s k" by simp
      with ch1 True s' show ?thesis by auto
    next
      case False
      with ch2 s' show ?thesis by auto
    qed
  qed
  have res: "distinct (drawn_tokens (h1 @ h2)) \<longrightarrow>
              (\<forall>(i, kind) \<in> set (returned (c # calls) rs). \<exists>p. projects s' i = Some p \<and> type p = kind)"
  proof (intro impI ballI)
    fix x assume dist: "distinct (drawn_tokens (h1 @ h2))" and x: "x \<in> set (returned (c # calls) rs)"
    obtain i kind where xi: "x = (i, kind)" by (cases x)
    from dist have d2: "distinct (drawn_tokens h2)"
      and disj: "set (drawn_tokens h1) \<inter> set (drawn_tokens h2) = {}" by simp_all
    have "\<exists>p. projects s' i = Some p \<and> type p = kind"
    proof (cases "created (name, args) r = Some (i, kind)")
      case True
      with cr1 obtain p where i1: "i \<in> set (drawn_tokens h1)" and p: "projects s1 i = Some p" "type p = kind"
        by blast
      from i1 disj have "i \<notin> set (drawn_tokens h2)" by blast
      with ch2 have "projects s2 i = projects s1 i" by blast
      with p s' show ?thesis by simp
    next
      case False
      with x xi c rs have "(i, kind) \<in> set (returned calls rs1)"
        by (auto split: option.splits)
      with res2 d2 s' show ?thesis by auto
    qed
    with xi show "case x of (i, kind) \<Rightarrow> \<exists>p. projects s' i = Some p \<and> type p = kind" by simp
  qed
  from hist sub ch res show ?case by blast
qed

lemma simulate_run:
  assumes mk: "\<And>h p. mkdir_result (os s) h p = None"
    and wr: "\<And>h p c. writeFile_result (os s) h p c = None"
    and ex: "\<And>h c opts. exec_result (os s) h c opts = Exited 0 out err"
    and t: "t = random_result (os s) (history s)"
    and d: "d = join [tempDir s, ''sim_project_'' @ t]"
  shows "simulateVerilog verilogCode testbenchCode s
           = (Inr (JObj [(''project_id'', JStr t),
                        (''success'', JBool True),
                        (''compile_stdout'', JStr out),
                        (''compile_stderr'', JStr err),
                        (''sim_stdout'', JStr out),
                        (''sim_stderr'', JStr err),
                        (''note'', JStr (''Use view_waveform with project_id: '' @ t @ '' to open GTKWave''))]),
              s\<lparr>projects := (projects s)(t \<mapsto> \<lparr>dir = d, type = ''simulation''\<rparr>),
                history := history s @
                  [Random_token t, Mkdir d,
                   WriteFile (join [d, ''design.v'']) (Text verilogCode),
                   WriteFile (join [d, ''testbench.v'']) (Text testbenchCode),
                   Exec compileCmd (no_options\<lparr>cwd := Some d, timeout := Some 60000\<rparr>),
                   Exec ''./simulation'' (no_options\<lparr>cwd := Some d, timeout := Some 60000\<rparr>)]\<rparr>)"
  unfolding simulateVerilog_def
  by (simp add: exec_defs mk wr ex t d promisified_def)

lemma two_creates:
  assumes mk: "\<And>h p. mkdir_result (os s) h p = None"
    and wr: "\<And>h p c. writeFile_result (os s) h p c = None"
    and ex: "\<And>h c opts. exec_result (os s) h c opts = Exited 0 out err"
    and t1: "t1 = random_result (os s) (history s)"
    and d1: "d1 = join [tempDir s, ''project_'' @ t1]"
    and h1: "h1 = history s @
                  [Random_token t1, Mkdir d1,
                   WriteFile (join [d1, ''design.v'']) (Text ''module m; endmodule''),
                   WriteFile (join [d1, ''synth.ys'']) (Text (synth_script ''generic'' ''m'')),
                   Exec (''yosys -s '' @ join [d1, ''synth.ys''])
                     (no_options\<lparr>cwd := Some d1, timeout := Some 120000\<rparr>),
                   ReadFile (join [d1, ''synth_output.v''])]"
    and t2: "t2 = random_result (os s) h1"
    and d2: "d2 = join [tempDir s, ''sim_project_'' @ t2]"
  shows "map fst (returned [synth_call, sim_call] (fst (serve [synth_call, sim_call] s))) = [t1, t2]
       \<and> returned [synth_call, sim_call] (fst (serve [synth_call, sim_call] s))
           = [(t1, ''synthesis''), (t2, ''simulation'')]
       \<and> drawn_tokens (history (snd (serve [synth_call, sim_call] s)))
           = drawn_tokens (history s) @ [t1, t2]
       \<and> projects (snd (serve [synth_call, sim_call] s))
           = (projects s)(t1 \<mapsto> \<lparr>dir = d1, type = ''synthesis''\<rparr>,
                          t2 \<mapsto> \<lparr>dir = d2, type = ''simulation''\<rparr>)"
proof -
  define s1 where "s1 = s\<lparr>projects := (projects s)(t1 \<mapsto> \<lparr>dir = d1, type = ''synthesis''\<rparr>), history := h1\<rparr>"
  obtain j1 where c1: "synthesizeVerilog ''module m; endmodule'' ''m'' ''generic'' s = (Inr j1, s1)"
    and f1: "field j1 ''project_id'' = Some (JStr t1)"
    using synthesize_success[OF mk wr ex t1 d1 refl, where verilogCode = "''module m; endmodule''"
        and target = "''generic''" and topModule = "''m''"]
    by (simp add: s1_def h1)
  have os1: "os s1 = os s" "history s1 = h1" "tempDir s1 = tempDir s"
    by (simp_all add: s1_def)
  define s2 where "s2 = s1\<lparr>projects := (projects s1)(t2 \<mapsto> \<lparr>dir = d2, type = ''simulation''\<rparr>),
      history := history s1 @
                  [Random_token t2, Mkdir d2,
                   WriteFile (join [d2, ''design.v'']) (Text ''module m; endmodule''),
                   WriteFile (join [d2, ''testbench.v'']) (Text ''module tb; endmodule''),
                   Exec compileCmd (no_options\<lparr>cwd := Some d2, timeout := Some 60000\<rparr>),
                   Exec ''./simulation'' (no_options\<lparr>cwd := Some d2, timeout := Some 60000\<rparr>)]\<rparr>"
  obtain j2 where c2: "simulateVerilog ''module m; endmodule'' ''module tb; endmodule'' s1 = (Inr j2, s2)"
    and f2: "field j2 ''project_id'' = Some (JStr t2)"
    using simulate_run[where s = s1 and out = out and err = err and t = t2 and d = d2
        and verilogCode = "''module m; endmodule''" and testbenchCode = "''module tb; endmodule''"]
    by (simp add: os1 mk wr ex t2 d2 s2_def)
  have serve: "serve [synth_call, sim_call] s = ([Inr j1, Inr j2], s2)"
    by (simp add: synth_call_def sim_call_def call_tool_def validateRequiredString_def
        getStringProperty_def run_driver_def c1 c2)
  have "returned [synth_call, sim_call] [Inr j1, Inr j2] = [(t1, ''synthesis''), (t2, ''simulation'')]"
    by (simp add: created_def workspace_kind_def synth_call_def sim_call_def f1 f2)
  moreover have "drawn_tokens (history s2) = drawn_tokens (history s) @ [t1, t2]"
    by (simp add: s2_def s1_def h1)
  moreover have "projects s2 = (projects s)(t1 \<mapsto> \<lparr>dir = d1, type = ''synthesis''\<rparr>,
                          t2 \<mapsto> \<lparr>dir = d2, type = ''simulation''\<rparr>)"
    by (simp add: s2_def s1_def)
  ultimately show ?thesis by (simp add: serve)
qed

text \<open>
  C1, as stated, fails: when the random source returns the same token twice, a synthesis
  call and a simulation call return the same identifier, and the identifier then resolves
  to the simulation record only.
\<close>

theorem identifier_collision_counterexample:
  "map fst (returned [synth_call, sim_call]
              (fst (serve [synth_call, sim_call] (fresh_server plain_os)))) = [''k3x9'', ''k3x9'']
   \<and> \<not> distinct [''k3x9'', ''k3x9'']
   \<and> projects (snd (serve [synth_call, sim_call] (fresh_server plain_os))) ''k3x9''
       = Some \<lparr>dir = join [''/tmp/eda_mcp_1'', ''sim_project_k3x9''], type = ''simulation''\<rparr>"
proof -
  let ?s = "fresh_server plain_os"
  have mk: "mkdir_result (os ?s) h p = None" for h p
    by (simp add: fresh_server_def plain_os_def)
  have wr: "writeFile_result (os ?s) h p c = None" for h p c
    by (simp add: fresh_server_def plain_os_def)
  have ex: "exec_result (os ?s) h c opts = Exited 0 ''ok'' []" for h c opts
    by (simp add: fresh_server_def plain_os_def)
  have t: "random_result (os ?s) h = ''k3x9''" for h
    by (simp add: fresh_server_def plain_os_def)
  have td: "tempDir ?s = ''/tmp/eda_mcp_1''" by (simp add: fresh_server_def)
  show ?thesis
    using two_creates[OF mk wr ex refl refl refl refl refl]
    by (simp add: t td)
qed

text \<open>
  C1, amended. In a run that starts with an empty registry and in which the tokens drawn
  from the random source (strings of at most 13 base-36 digits) are pairwise distinct, the
  identifiers returned by the create calls are pairwise distinct, and at the end of the
  run, however many calls followed, each of them resolves to a record of the kind its call
  created, whose directory no other registered record has.
\<close>

theorem workspace_identifiers:
  assumes "projects s0 = Map.empty" and "history s0 = []"
    and "serve calls s0 = (responses, s)"
    and "distinct (drawn_tokens (history s))"
    and "list_all is_token (drawn_tokens (history s))"
  shows "distinct (map fst (returned calls responses))
       \<and> (\<forall>(i, kind) \<in> set (returned calls responses).
             \<exists>p. projects s i = Some p \<and> type p = kind
                  \<and> (\<forall>k q. projects s k = Some q \<longrightarrow> k \<noteq> i \<longrightarrow> dir q \<noteq> dir p))"
proof -
  from serve_effect[OF assms(3)] assms(2) have
    sub: "subseq (map fst (returned calls responses)) (drawn_tokens (history s))"
    and ch: "\<forall>k. projects s k \<noteq> projects s0 k \<longrightarrow>
              k \<in> set (drawn_tokens (history s))
              \<and> (\<exists>p. projects s k = Some p \<and> (is_token k \<longrightarrow> id_of_dir (dir p) = k))"
    and res: "distinct (drawn_tokens (history s)) \<longrightarrow>
              (\<forall>(i, kind) \<in> set (returned calls responses). \<exists>p. projects s i = Some p \<and> type p = kind)"
    by auto
  have ids: "id_of_dir (dir q) = k" if "projects s k = Some q" for k q
  proof -
    from that assms(1) have "projects s k \<noteq> projects s0 k" by simp
    with ch have "k \<in> set (drawn_tokens (history s))
         \<and> (\<exists>p. projects s k = Some p \<and> (is_token k \<longrightarrow> id_of_dir (dir p) = k))"
      by blast
    with that have k: "k \<in> set (drawn_tokens (history s))"
      and q: "is_token k \<longrightarrow> id_of_dir (dir q) = k"
      by auto
    from k assms(5) have "is_token k" by (simp add: list_all_iff)
    with q show ?thesis by simp
  qed
  have "distinct (map fst (returned calls responses))"
    using sub assms(4) by (rule subseq_distinct)
  moreover have "\<forall>(i, kind) \<in> set (returned calls responses).
             \<exists>p. projects s i = Some p \<and> type p = kind
                  \<and> (\<forall>k q. projects s k = Some q \<longrightarrow> k \<noteq> i \<longrightarrow> dir q \<noteq> dir p)"
  proof (intro ballI)
    fix x assume x: "x \<in> set (returned calls responses)"
    obtain i kind where xi: "x = (i, kind)" by (cases x)
    with x res assms(4) obtain p where p: "projects s i = Some p" "type p = kind" by auto
    have "\<forall>k q. projects s k = Some q \<longrightarrow> k \<noteq> i \<longrightarrow> dir q \<noteq> dir p"
      using ids[OF p(1)] ids by metis
    with p xi show "case x of (i, kind) \<Rightarrow>
             \<exists>p. projects s i = Some p \<and> type p = kind
                  \<and> (\<forall>k q. projects s k = Some q \<longrightarrow> k \<noteq> i \<longrightarrow> dir q \<noteq> dir p)"
      by simp
  qed
  ultimately show ?thesis by blast
qed

theorem workspace_identifiers_witness:
  "projects (fresh_server counting_os) = Map.empty
   \<and> history (fresh_server counting_os) = []
   \<and> drawn_tokens (history (snd (serve [synth_call, sim_call] (fresh_server counting_os))))
       = [''0'', ''1'']
   \<and> distinct [''0'', ''1''] \<and> list_all is_token [''0'', ''1'']
   \<and> returned [synth_call, sim_call] (fst (serve [synth_call, sim_call] (fresh_server counting_os)))
       = [(''0'', ''synthesis''), (''1'', ''simulation'')]
   \<and> distinct (map fst (returned [synth_call, sim_call]
                           (fst (serve [synth_call, sim_call] (fresh_server counting_os)))))
   \<and> (\<exists>p. projects (snd (serve [synth_call, sim_call] (fresh_server counting_os))) ''0'' = Some p
           \<and> type p = ''synthesis'')"
proof -
  let ?s = "fresh_server counting_os"
  let ?calls = "[synth_call, sim_call]"
  have mk: "mkdir_result (os ?s) h p = None" for h p
    by (simp add: fresh_server_def counting_os_def plain_os_def)
  have wr: "writeFile_result (os ?s) h p c = None" for h p c
    by (simp add: fresh_server_def counting_os_def plain_os_def)
  have ex: "exec_result (os ?s) h c opts = Exited 0 ''ok'' []" for h c opts
    by (simp add: fresh_server_def counting_os_def plain_os_def)
  have t: "random_result (os ?s) h = show_nat (length (drawn_tokens h))" for h
    by (simp add: fresh_server_def counting_os_def plain_os_def)
  have n: "show_nat 0 = ''0''" "show_nat (Suc 0) = ''1''" by code_simp+
  have p0: "projects ?s = Map.empty" and h0: "history ?s = []"
    by (simp_all add: fresh_server_def)
  have run: "returned ?calls (fst (serve ?calls ?s)) = [(''0'', ''synthesis''), (''1'', ''simulation'')]"
    "drawn_tokens (history (snd (serve ?calls ?s))) = [''0'', ''1'']"
    using two_creates[OF mk wr ex refl refl refl refl refl]
    by (simp_all add: t h0 n)
  have dist: "distinct (drawn_tokens (history (snd (serve ?calls ?s))))"
    by (simp add: run)
  have tok: "list_all is_token (drawn_tokens (history (snd (serve ?calls ?s))))"
    by (simp add: run is_token_def is_base36_def)
  have sv: "serve ?calls ?s = (fst (serve ?calls ?s), snd (serve ?calls ?s))" by simp
  from workspace_identifiers[OF p0 h0 sv dist tok] p0 h0 run tok
  show ?thesis by auto
qed

end
